theory Spec2Isabelle
  imports Main "HOL-Library.Word"
begin

section \<open>Types, values and operations of the stencil dialect\<close>

text \<open>
  The element types admitted by \<^verbatim>\<open>Stencil_Element\<close> and the types a value can have:
  temporaries, fields and results (\<^verbatim>\<open>StencilBase.td\<close>), plus the scalar, index and
  boolean types of the ops that occur in an apply body. \<open>NoneType\<close> is the type read
  from a value whose defining op or block is not in the graph.
\<close>

datatype elemtype = F32 | F64

datatype mtype =
    TempType elemtype "int list"
  | FieldType elemtype "int list"
  | ResultType elemtype
  | ElementType elemtype
  | IndexType
  | I1Type
  | NoneType

fun isTempType :: "mtype \<Rightarrow> bool" where
  "isTempType (TempType e s) = True"
| "isTempType t = False"

fun isFieldType :: "mtype \<Rightarrow> bool" where
  "isFieldType (FieldType e s) = True"
| "isFieldType t = False"

fun isResultType :: "mtype \<Rightarrow> bool" where
  "isResultType (ResultType e) = True"
| "isResultType t = False"

text \<open>\<^verbatim>\<open>cast<GridType>().getElementType()\<close>: defined on temporaries and fields only.\<close>

fun gridElementType :: "mtype \<Rightarrow> elemtype option" where
  "gridElementType (TempType e s) = Some e"
| "gridElementType (FieldType e s) = Some e"
| "gridElementType t = None"

text \<open>\<^verbatim>\<open>cast<ResultType>().getResultType()\<close>: defined on results only.\<close>

fun getResultType :: "mtype \<Rightarrow> elemtype option" where
  "getResultType (ResultType e) = Some e"
| "getResultType t = None"

text \<open>
  An error is either a diagnostic emitted with \<^verbatim>\<open>emitOpError\<close> or a failed assertion
  (\<^verbatim>\<open>assert\<close>, or a \<^verbatim>\<open>cast<>\<close> to the wrong class), which aborts.
\<close>

datatype error = OpError string | AssertionFailed string

datatype logical_result = success | failure

text \<open>
  A block is named by its owner: the entry block of the function, or the block of the
  \<open>r\<close>-th region of operation \<open>p\<close>. A value is an operation result or a block argument.
\<close>

datatype blockref = FuncBody | RegionOf nat nat

datatype val = OpResult nat nat | BlockArg blockref nat

datatype cmpi_predicate = eq | ne | slt | sle | sgt | sge | ult | ule | ugt | uge

text \<open>
  The operation kinds with their attributes. \<open>CombineOp\<close> carries \<open>dim\<close>, \<open>index\<close>, the
  sizes of its four operand segments (lower, upper, lowerext, upperext) and the optional
  bounds; \<open>ReturnOp\<close> the optional unroll attribute; \<open>OtherOp\<close> is any operation the
  pass does not inspect.
\<close>

datatype opkind =
    ApplyOp "int list option" "int list option"
  | CombineOp int int nat nat nat nat "int list option" "int list option"
  | ReturnOp "int list option"
  | StoreResultOp
  | IndexOp int "int list"
  | ConstantOp int
  | CmpIOp cmpi_predicate
  | IfOp
  | YieldOp
  | CastOp "int list" "int list"
  | LoadOp "int list option" "int list option"
  | BufferOp "int list option" "int list option"
  | StoreOp "int list" "int list"
  | OtherOp string

fun isApplyOp :: "opkind \<Rightarrow> bool" where
  "isApplyOp (ApplyOp l u) = True"
| "isApplyOp k = False"

fun isCombineOp :: "opkind \<Rightarrow> bool" where
  "isCombineOp (CombineOp d i nl nu nle nue l u) = True"
| "isCombineOp k = False"

fun isCastOp :: "opkind \<Rightarrow> bool" where
  "isCastOp (CastOp l u) = True"
| "isCastOp k = False"

fun isLoadOp :: "opkind \<Rightarrow> bool" where
  "isLoadOp (LoadOp l u) = True"
| "isLoadOp k = False"

fun isStoreOp :: "opkind \<Rightarrow> bool" where
  "isStoreOp (StoreOp l u) = True"
| "isStoreOp k = False"

text \<open>The optional \<open>lb\<close> and \<open>ub\<close> attributes of an operation.\<close>

fun lbAttr :: "opkind \<Rightarrow> int list option" where
  "lbAttr (ApplyOp l u) = l"
| "lbAttr (CombineOp d i nl nu nle nue l u) = l"
| "lbAttr (CastOp l u) = Some l"
| "lbAttr (LoadOp l u) = l"
| "lbAttr (BufferOp l u) = l"
| "lbAttr (StoreOp l u) = Some l"
| "lbAttr k = None"

fun ubAttr :: "opkind \<Rightarrow> int list option" where
  "ubAttr (ApplyOp l u) = u"
| "ubAttr (CombineOp d i nl nu nle nue l u) = u"
| "ubAttr (CastOp l u) = Some u"
| "ubAttr (LoadOp l u) = u"
| "ubAttr (BufferOp l u) = u"
| "ubAttr (StoreOp l u) = Some u"
| "ubAttr k = None"

record block =
  bargs :: "mtype list"
  bops :: "nat list"

record operation =
  kind :: opkind
  operands :: "val list"
  resultTypes :: "mtype list"
  regions :: "block list list"

text \<open>
  The function the pass runs on: its tag, its entry block and the arena of the
  operations nested in it, each under its identifier; \<open>nextId\<close> is the next identifier
  to hand out, above every identifier in use.
\<close>

record func =
  isStencilProgram :: bool
  fblock :: block
  ops :: "nat \<Rightarrow> operation option"
  nextId :: nat

definition blockAt :: "func \<Rightarrow> blockref \<Rightarrow> block option" where
  "blockAt g b =
     (case b of
        FuncBody \<Rightarrow> Some (fblock g)
      | RegionOf p r \<Rightarrow>
          (case ops g p of
             None \<Rightarrow> None
           | Some oper \<Rightarrow>
               if r < length (regions oper)
               then (case regions oper ! r of [] \<Rightarrow> None | blk # rest \<Rightarrow> Some blk)
               else None))"

definition typeOf :: "func \<Rightarrow> val \<Rightarrow> mtype" where
  "typeOf g v =
     (case v of
        OpResult p k \<Rightarrow>
          (case ops g p of
             None \<Rightarrow> NoneType
           | Some oper \<Rightarrow> if k < length (resultTypes oper) then resultTypes oper ! k else NoneType)
      | BlockArg b k \<Rightarrow>
          (case blockAt g b of
             None \<Rightarrow> NoneType
           | Some blk \<Rightarrow> if k < length (bargs blk) then bargs blk ! k else NoneType))"

text \<open>\<^verbatim>\<open>Value::getDefiningOp\<close>: null for a block argument.\<close>

fun getDefiningOp :: "val \<Rightarrow> nat option" where
  "getDefiningOp (OpResult p k) = Some p"
| "getDefiningOp (BlockArg b k) = None"

text \<open>
  \<^verbatim>\<open>isa<K>(op)\<close> on an operation. An identifier without an operation stands for no
  operation of the graph and is of no kind.
\<close>

definition isaOp :: "func \<Rightarrow> (opkind \<Rightarrow> bool) \<Rightarrow> nat \<Rightarrow> bool" where
  "isaOp g P p = (case ops g p of None \<Rightarrow> False | Some oper \<Rightarrow> P (kind oper))"

text \<open>
  \<^verbatim>\<open>isa<K>\<close> and the test of \<^verbatim>\<open>dyn_cast<K>\<close> on the result of \<^verbatim>\<open>getDefiningOp\<close>, which
  is null for a block argument: both assert that the pointer is not null.
\<close>

definition isa :: "func \<Rightarrow> (opkind \<Rightarrow> bool) \<Rightarrow> nat option \<Rightarrow> error + bool" where
  "isa g P po =
     (case po of
        None \<Rightarrow> Inl (AssertionFailed ''isa<> used on a null pointer'')
      | Some p \<Rightarrow> Inr (isaOp g P p))"

text \<open>\<^verbatim>\<open>isa_and_nonnull<K>\<close>: false on a null pointer.\<close>

definition isa_and_nonnull :: "func \<Rightarrow> (opkind \<Rightarrow> bool) \<Rightarrow> nat option \<Rightarrow> bool" where
  "isa_and_nonnull g P po = (case po of None \<Rightarrow> False | Some p \<Rightarrow> isaOp g P p)"

text \<open>
  \<^verbatim>\<open>Value::getUsers\<close>: the owner of every use of the value, an operation that uses the
  value twice being listed twice.
\<close>

definition getUsers :: "func \<Rightarrow> val \<Rightarrow> nat list" where
  "getUsers g v =
     concat (map (\<lambda>i. case ops g i of
                         None \<Rightarrow> []
                       | Some oper \<Rightarrow> replicate (count_list (operands oper) v) i)
                 [0..<nextId g])"

definition hasOneUse :: "func \<Rightarrow> val \<Rightarrow> bool" where
  "hasOneUse g v = (length (getUsers g v) = 1)"

text \<open>\<^verbatim>\<open>Operation::getParentOp\<close>: the operation one of whose blocks lists \<open>x\<close>.\<close>

definition getParentOp :: "func \<Rightarrow> nat \<Rightarrow> nat option" where
  "getParentOp g x =
     List.find (\<lambda>p. case ops g p of
                       None \<Rightarrow> False
                     | Some oper \<Rightarrow> list_ex (list_ex (\<lambda>blk. x \<in> set (bops blk))) (regions oper))
               [0..<nextId g]"

section \<open>The unroll configuration of a return op\<close>

text \<open>
  \<^verbatim>\<open>ReturnOp::getUnrollFac\<close>: \<^verbatim>\<open>std::accumulate\<close> is started with the \<^verbatim>\<open>int\<close> 1, so the
  accumulator is a 32-bit \<^verbatim>\<open>int\<close>: every 64-bit product is narrowed to 32 bits, and the
  result is read as \<^verbatim>\<open>unsigned\<close>.
\<close>

definition getUnrollFac :: "int list option \<Rightarrow> nat" where
  "getUnrollFac unroll =
     (case unroll of
        None \<Rightarrow> 1
      | Some u \<Rightarrow> unat (foldl (\<lambda>acc x. (word_of_int (sint acc * x) :: 32 word)) 1 u))"

fun find_index :: "('a \<Rightarrow> bool) \<Rightarrow> 'a list \<Rightarrow> nat option" where
  "find_index P [] = None"
| "find_index P (x # xs) =
     (if P x then Some 0 else map_option Suc (find_index P xs))"

text \<open>
  \<^verbatim>\<open>ReturnOp::getUnrollDim\<close>: the position of the first entry equal to the unroll
  factor; the source asserts that there is one.
\<close>

definition getUnrollDim :: "int list option \<Rightarrow> error + nat" where
  "getUnrollDim unroll =
     (case unroll of
        None \<Rightarrow> Inr 0
      | Some u \<Rightarrow>
          (case find_index (\<lambda>x. x = int (getUnrollFac unroll)) u of
             None \<Rightarrow> Inl (AssertionFailed ''expected to find unroll factor'')
           | Some d \<Rightarrow> Inr d))"

section \<open>Verifiers\<close>

text \<open>
  The methods of \<^verbatim>\<open>GridType\<close> (\<^verbatim>\<open>StencilTypes.h\<close>) and of the \<^verbatim>\<open>ShapeOp\<close> interface
  (\<^verbatim>\<open>StencilInterfaces.td\<close>) are not among the source files: the verifiers and the
  rewrite patterns take them as parameters.
\<close>

record 'a gridtype_iface =
  hasDynamicShape :: "mtype \<Rightarrow> bool"
  getRank :: "mtype \<Rightarrow> nat"
  getAllocation :: "mtype \<Rightarrow> 'a"
  hasLargerOrEqualShape :: "mtype \<Rightarrow> int list \<Rightarrow> int list \<Rightarrow> bool"

record shapeop_iface =
  hasShape :: "opkind \<Rightarrow> bool"
  getLB :: "opkind \<Rightarrow> int list"
  getUB :: "opkind \<Rightarrow> int list"

text \<open>
  The verifier of \<^verbatim>\<open>stencil.store\<close>. The operand constraints of the op declaration
  (\<^verbatim>\<open>Stencil_Temp:$temp\<close>, \<^verbatim>\<open>Stencil_Field:$field\<close>) are checked first.
\<close>

definition verifyStore ::
  "shapeop_iface \<Rightarrow> 'a gridtype_iface \<Rightarrow> func \<Rightarrow> operation \<Rightarrow> error + unit" where
  "verifyStore S T g oper =
     (case operands oper of
        [temp, field] \<Rightarrow>
          (let fieldType = typeOf g field; tempType = typeOf g temp in
           if \<not> isTempType tempType then
             Inl (OpError ''operand #0 must be a temporary value'')
           else if \<not> isFieldType fieldType then
             Inl (OpError ''operand #1 must be a input/output array'')
           else if hasDynamicShape T fieldType then
             Inl (OpError ''expected fields to have static shape'')
           else if getRank T fieldType \<noteq> getRank T tempType then
             Inl (OpError ''the field and temp types have different rank'')
           else if getAllocation T fieldType \<noteq> getAllocation T tempType then
             Inl (OpError ''the field and temp types have different allocation'')
           else if gridElementType fieldType \<noteq> gridElementType tempType then
             Inl (OpError ''the field and temp types have different element types'')
           else if \<not> hasLargerOrEqualShape T fieldType (getLB S (kind oper)) (getUB S (kind oper)) then
             Inl (OpError ''expected the field type to be larger than the op shape'')
           else if \<not> hasLargerOrEqualShape T tempType (getLB S (kind oper)) (getUB S (kind oper)) then
             Inl (OpError ''expected the temp type to be larger than the op shape'')
           else
             (case isa g isApplyOp (getDefiningOp temp) of
                Inl e \<Rightarrow> Inl e
              | Inr fromApply \<Rightarrow>
             (case (if fromApply then Inr True else isa g isCombineOp (getDefiningOp temp)) of
                Inl e \<Rightarrow> Inl e
              | Inr fromApplyOrCombine \<Rightarrow>
             if \<not> fromApplyOrCombine then
               Inl (OpError ''output temp not result of an apply or a combine op'')
             else if length (filter (\<lambda>p. isa_and_nonnull g isLoadOp (Some p)) (getUsers g field)) \<noteq> 0 then
               Inl (OpError ''an output cannot be an input'')
             else if length (filter (\<lambda>p. isa_and_nonnull g isStoreOp (Some p)) (getUsers g field)) \<noteq> 1 then
               Inl (OpError ''multiple stores to the same output'')
             else
               (case isa g isCastOp (getDefiningOp field) of
                  Inl e \<Rightarrow> Inl e
                | Inr fromCast \<Rightarrow>
                    if \<not> fromCast then
                      Inl (OpError ''expected the defining op of the field is a cast operation'')
                    else Inr ()))))
      | other \<Rightarrow> Inl (OpError ''expected 2 operands''))"

text \<open>
  The verifier of \<^verbatim>\<open>stencil.return\<close>. The inner loops of the source return at the first
  mismatch; \<open>verifyElementTypes\<close> walks the apply results in the same order.
\<close>

fun verifyElementTypes :: "func \<Rightarrow> val list \<Rightarrow> nat \<Rightarrow> nat \<Rightarrow> mtype list \<Rightarrow> error + unit" where
  "verifyElementTypes g opnds unrollFac i [] = Inr ()"
| "verifyElementTypes g opnds unrollFac i (t # ts) =
     (case gridElementType t of
        None \<Rightarrow> Inl (AssertionFailed ''cast<GridType>'')
      | Some e \<Rightarrow>
          if list_all (\<lambda>j. getResultType (typeOf g (opnds ! (i * unrollFac + j))) = Some e)
               [0..<unrollFac]
          then verifyElementTypes g opnds unrollFac (Suc i) ts
          else Inl (OpError ''the operand and apply result element types do not match''))"

definition verifyReturn :: "func \<Rightarrow> nat \<Rightarrow> error + unit" where
  "verifyReturn g r =
     (case ops g r of
        None \<Rightarrow> Inl (AssertionFailed ''no such operation'')
      | Some ret \<Rightarrow>
          (case kind ret of
             ReturnOp unroll \<Rightarrow>
               (case getParentOp g r of
                  None \<Rightarrow> Inl (OpError ''expects parent op stencil.apply'')
                | Some a \<Rightarrow>
                    (case ops g a of
                       None \<Rightarrow> Inl (OpError ''expects parent op stencil.apply'')
                     | Some applyOp \<Rightarrow>
                         if \<not> isApplyOp (kind applyOp) then
                           Inl (OpError ''expects parent op stencil.apply'')
                         else if \<not> list_all (\<lambda>v. isResultType (typeOf g v)) (operands ret) then
                           Inl (OpError ''operand must be a result'')
                         else if length (operands ret)
                                 \<noteq> getUnrollFac unroll * length (resultTypes applyOp) then
                           Inl (OpError ''the operand and apply result counts do not match'')
                         else verifyElementTypes g (operands ret) (getUnrollFac unroll) 0
                                (resultTypes applyOp)))
           | other \<Rightarrow> Inl (AssertionFailed ''not a return op'')))"


section \<open>The pattern rewriter\<close>

text \<open>
  The services of the rewriting framework the pass uses: creating an operation at the
  insertion point, erasing and replacing operations, replacing the uses of a value and
  merging blocks. The insertion point is before an operation or at the end of a block.
  The framework itself is not part of the repository; the functions below give the
  effect of each service on the graph.
\<close>

datatype inspoint = Before nat | AtEnd blockref

datatype diagnostic = Warning nat string | FuncOpError string

record rewriter =
  graph :: func
  ip :: inspoint
  diags :: "diagnostic list"

definition emitWarning :: "nat \<Rightarrow> string \<Rightarrow> rewriter \<Rightarrow> rewriter" where
  "emitWarning x msg rw = rw\<lparr>diags := diags rw @ [Warning x msg]\<rparr>"

fun insertBefore :: "nat \<Rightarrow> nat \<Rightarrow> nat list \<Rightarrow> nat list" where
  "insertBefore x n [] = []"
| "insertBefore x n (y # ys) = (if y = x then n # y # ys else y # insertBefore x n ys)"

text \<open>Apply \<open>f\<close> to the operation list of every block of the function.\<close>

definition mapBlockOps :: "(nat list \<Rightarrow> nat list) \<Rightarrow> func \<Rightarrow> func" where
  "mapBlockOps f g =
     g\<lparr>fblock := (fblock g)\<lparr>bops := f (bops (fblock g))\<rparr>,
       ops := (\<lambda>i. map_option
                 (\<lambda>oper. oper\<lparr>regions := map (map (\<lambda>blk. blk\<lparr>bops := f (bops blk)\<rparr>)) (regions oper)\<rparr>)
                 (ops g i))\<rparr>"

text \<open>Update the block a reference names (the front block of the region).\<close>

definition updRegion :: "nat \<Rightarrow> (block list \<Rightarrow> block list) \<Rightarrow> operation \<Rightarrow> operation" where
  "updRegion r f oper =
     (if r < length (regions oper)
      then oper\<lparr>regions := (regions oper)[r := f (regions oper ! r)]\<rparr>
      else oper)"

fun updFront :: "(block \<Rightarrow> block) \<Rightarrow> block list \<Rightarrow> block list" where
  "updFront f [] = []"
| "updFront f (blk # rest) = f blk # rest"

definition updBlock :: "blockref \<Rightarrow> (block \<Rightarrow> block) \<Rightarrow> func \<Rightarrow> func" where
  "updBlock b f g =
     (case b of
        FuncBody \<Rightarrow> g\<lparr>fblock := f (fblock g)\<rparr>
      | RegionOf p r \<Rightarrow>
          g\<lparr>ops := (ops g)(p := map_option (updRegion r (updFront f)) (ops g p))\<rparr>)"

definition appendOps :: "blockref \<Rightarrow> nat list \<Rightarrow> func \<Rightarrow> func" where
  "appendOps b xs g = updBlock b (\<lambda>blk. blk\<lparr>bops := bops blk @ xs\<rparr>) g"

definition insertOp :: "inspoint \<Rightarrow> nat \<Rightarrow> func \<Rightarrow> func" where
  "insertOp pt n g =
     (case pt of
        Before x \<Rightarrow> mapBlockOps (insertBefore x n) g
      | AtEnd b \<Rightarrow> appendOps b [n] g)"

text \<open>
  \<^verbatim>\<open>rewriter.create\<close>: the new operation gets the next identifier and is linked in at
  the insertion point.
\<close>

definition createIn :: "inspoint \<Rightarrow> operation \<Rightarrow> func \<Rightarrow> func" where
  "createIn pt oper g =
     (insertOp pt (nextId g) g)
       \<lparr>ops := (ops (insertOp pt (nextId g) g))(nextId g \<mapsto> oper), nextId := Suc (nextId g)\<rparr>"

definition create :: "operation \<Rightarrow> rewriter \<Rightarrow> rewriter" where
  "create oper rw = rw\<lparr>graph := createIn (ip rw) oper (graph rw)\<rparr>"

definition setInsertionPoint :: "nat \<Rightarrow> rewriter \<Rightarrow> rewriter" where
  "setInsertionPoint x rw = rw\<lparr>ip := Before x\<rparr>"

definition setInsertionPointToEnd :: "blockref \<Rightarrow> rewriter \<Rightarrow> rewriter" where
  "setInsertionPointToEnd b rw = rw\<lparr>ip := AtEnd b\<rparr>"

definition setInsertionPointToStart :: "blockref \<Rightarrow> rewriter \<Rightarrow> rewriter" where
  "setInsertionPointToStart b rw =
     (case blockAt (graph rw) b of
        None \<Rightarrow> rw\<lparr>ip := AtEnd b\<rparr>
      | Some blk \<Rightarrow> (case bops blk of [] \<Rightarrow> rw\<lparr>ip := AtEnd b\<rparr> | x # xs \<Rightarrow> rw\<lparr>ip := Before x\<rparr>))"

definition replaceUse :: "val \<Rightarrow> val \<Rightarrow> val \<Rightarrow> val" where
  "replaceUse old new v = (if v = old then new else v)"

definition replaceAllUsesWith :: "val \<Rightarrow> val \<Rightarrow> func \<Rightarrow> func" where
  "replaceAllUsesWith old new g =
     g\<lparr>ops := (\<lambda>i. map_option
                 (\<lambda>oper. oper\<lparr>operands := map (replaceUse old new) (operands oper)\<rparr>)
                 (ops g i))\<rparr>"

text \<open>Replace the uses of each value of \<open>olds\<close> by the value at the same position of \<open>news\<close>, in turn.\<close>

fun replaceAll :: "val list \<Rightarrow> val list \<Rightarrow> func \<Rightarrow> func" where
  "replaceAll (old # olds) (new # news) g = replaceAll olds news (replaceAllUsesWith old new g)"
| "replaceAll olds news g = g"

text \<open>What a use of \<open>v\<close> holds after \<open>replaceAll olds news\<close>.\<close>

fun substSeq :: "val list \<Rightarrow> val list \<Rightarrow> val \<Rightarrow> val" where
  "substSeq (old # olds) (new # news) v = substSeq olds news (replaceUse old new v)"
| "substSeq olds news v = v"

definition eraseFromGraph :: "nat \<Rightarrow> func \<Rightarrow> func" where
  "eraseFromGraph x g = (mapBlockOps (removeAll x) g)\<lparr>ops := (ops (mapBlockOps (removeAll x) g))(x := None)\<rparr>"

definition eraseOp :: "nat \<Rightarrow> rewriter \<Rightarrow> rewriter" where
  "eraseOp x rw = rw\<lparr>graph := eraseFromGraph x (graph rw)\<rparr>"

definition getOperands :: "func \<Rightarrow> nat \<Rightarrow> val list" where
  "getOperands g x = (case ops g x of None \<Rightarrow> [] | Some oper \<Rightarrow> operands oper)"

definition getResultTypes :: "func \<Rightarrow> nat \<Rightarrow> mtype list" where
  "getResultTypes g x = (case ops g x of None \<Rightarrow> [] | Some oper \<Rightarrow> resultTypes oper)"

definition getResults :: "func \<Rightarrow> nat \<Rightarrow> val list" where
  "getResults g x = map (OpResult x) [0..<length (getResultTypes g x)]"

definition getKind :: "func \<Rightarrow> nat \<Rightarrow> opkind option" where
  "getKind g x = map_option kind (ops g x)"

definition getArgTypes :: "func \<Rightarrow> blockref \<Rightarrow> mtype list" where
  "getArgTypes g b = (case blockAt g b of None \<Rightarrow> [] | Some blk \<Rightarrow> bargs blk)"

definition getArguments :: "func \<Rightarrow> blockref \<Rightarrow> val list" where
  "getArguments g b = map (BlockArg b) [0..<length (getArgTypes g b)]"

definition getBlockOps :: "func \<Rightarrow> blockref \<Rightarrow> nat list" where
  "getBlockOps g b = (case blockAt g b of None \<Rightarrow> [] | Some blk \<Rightarrow> bops blk)"

text \<open>\<^verbatim>\<open>rewriter.replaceOp\<close>: the uses of the results go to the new values, then the op is erased.\<close>

definition replaceOpIn :: "nat \<Rightarrow> val list \<Rightarrow> func \<Rightarrow> func" where
  "replaceOpIn x newValues g = eraseFromGraph x (replaceAll (getResults g x) newValues g)"

definition replaceOp :: "nat \<Rightarrow> val list \<Rightarrow> rewriter \<Rightarrow> rewriter" where
  "replaceOp x newValues rw = rw\<lparr>graph := replaceOpIn x newValues (graph rw)\<rparr>"

text \<open>
  \<^verbatim>\<open>rewriter.mergeBlocks\<close>: the uses of the source block's arguments go to the given
  values, the operations of the source are moved to the end of the destination, and the
  source block is removed from its region.
\<close>

definition dropFrontBlock :: "blockref \<Rightarrow> func \<Rightarrow> func" where
  "dropFrontBlock b g =
     (case b of
        FuncBody \<Rightarrow> g
      | RegionOf p r \<Rightarrow> g\<lparr>ops := (ops g)(p := map_option (updRegion r tl) (ops g p))\<rparr>)"

definition mergeBlocksIn :: "blockref \<Rightarrow> blockref \<Rightarrow> val list \<Rightarrow> func \<Rightarrow> func" where
  "mergeBlocksIn source dest argValues g =
     dropFrontBlock source
       (appendOps dest (getBlockOps g source)
          (replaceAll (getArguments g source) argValues g))"

definition mergeBlocks :: "blockref \<Rightarrow> blockref \<Rightarrow> val list \<Rightarrow> rewriter \<Rightarrow> rewriter" where
  "mergeBlocks source dest argValues rw = rw\<lparr>graph := mergeBlocksIn source dest argValues (graph rw)\<rparr>"

section \<open>Builders and accessors of the ops\<close>

text \<open>The builder of \<^verbatim>\<open>stencil.apply\<close>: the bounds are set only when both are given.\<close>

definition buildApplyOp ::
  "func \<Rightarrow> mtype list \<Rightarrow> val list \<Rightarrow> int list option \<Rightarrow> int list option \<Rightarrow> operation" where
  "buildApplyOp g resTypes opnds lb ub =
     \<lparr> kind = (if lb \<noteq> None \<and> ub \<noteq> None then ApplyOp lb ub else ApplyOp None None),
       operands = opnds,
       resultTypes = resTypes,
       regions = [[\<lparr> bargs = map (typeOf g) opnds, bops = [] \<rparr>]] \<rparr>"

definition buildReturnOp :: "val list \<Rightarrow> int list option \<Rightarrow> operation" where
  "buildReturnOp opnds unroll =
     \<lparr> kind = ReturnOp unroll, operands = opnds, resultTypes = [], regions = [] \<rparr>"

definition buildStoreResultOp :: "mtype \<Rightarrow> val list \<Rightarrow> operation" where
  "buildStoreResultOp resType opnds =
     \<lparr> kind = StoreResultOp, operands = opnds, resultTypes = [resType], regions = [] \<rparr>"

definition buildIndexOp :: "int \<Rightarrow> int list \<Rightarrow> operation" where
  "buildIndexOp dim offset =
     \<lparr> kind = IndexOp dim offset, operands = [], resultTypes = [IndexType], regions = [] \<rparr>"

definition buildConstantOp :: "int \<Rightarrow> operation" where
  "buildConstantOp v =
     \<lparr> kind = ConstantOp v, operands = [], resultTypes = [IndexType], regions = [] \<rparr>"

definition buildCmpIOp :: "cmpi_predicate \<Rightarrow> val \<Rightarrow> val \<Rightarrow> operation" where
  "buildCmpIOp pred lhs rhs =
     \<lparr> kind = CmpIOp pred, operands = [lhs, rhs], resultTypes = [I1Type], regions = [] \<rparr>"

text \<open>
  The builder of \<^verbatim>\<open>scf.if\<close> with an else region: both regions get an empty block (no
  terminator is added when the op has results).
\<close>

definition buildIfOp :: "mtype list \<Rightarrow> val \<Rightarrow> operation" where
  "buildIfOp resTypes cond =
     \<lparr> kind = IfOp, operands = [cond], resultTypes = resTypes,
       regions = [[\<lparr> bargs = [], bops = [] \<rparr>], [\<lparr> bargs = [], bops = [] \<rparr>]] \<rparr>"

definition buildYieldOp :: "val list \<Rightarrow> operation" where
  "buildYieldOp opnds =
     \<lparr> kind = YieldOp, operands = opnds, resultTypes = [], regions = [] \<rparr>"

definition buildCombineOp ::
  "mtype list \<Rightarrow> int \<Rightarrow> int \<Rightarrow> val list \<Rightarrow> val list \<Rightarrow> val list \<Rightarrow> val list
     \<Rightarrow> int list option \<Rightarrow> int list option \<Rightarrow> operation" where
  "buildCombineOp resTypes dim index lower upper lowerext upperext lb ub =
     \<lparr> kind = CombineOp dim index (length lower) (length upper) (length lowerext) (length upperext) lb ub,
       operands = lower @ upper @ lowerext @ upperext,
       resultTypes = resTypes,
       regions = [] \<rparr>"

text \<open>The four operand segments of a combine op.\<close>

fun segmentSizes :: "opkind \<Rightarrow> nat \<times> nat \<times> nat \<times> nat" where
  "segmentSizes (CombineOp d i nl nu nle nue l u) = (nl, nu, nle, nue)"
| "segmentSizes k = (0, 0, 0, 0)"

definition lower :: "operation \<Rightarrow> val list" where
  "lower c = (case segmentSizes (kind c) of (nl, nu, nle, nue) \<Rightarrow> take nl (operands c))"

definition upper :: "operation \<Rightarrow> val list" where
  "upper c = (case segmentSizes (kind c) of (nl, nu, nle, nue) \<Rightarrow> take nu (drop nl (operands c)))"

definition lowerext :: "operation \<Rightarrow> val list" where
  "lowerext c =
     (case segmentSizes (kind c) of (nl, nu, nle, nue) \<Rightarrow> take nle (drop (nl + nu) (operands c)))"

definition upperext :: "operation \<Rightarrow> val list" where
  "upperext c =
     (case segmentSizes (kind c) of (nl, nu, nle, nue) \<Rightarrow>
        take nue (drop (nl + nu + nle) (operands c)))"

fun combineDim :: "opkind \<Rightarrow> int" where
  "combineDim (CombineOp d i nl nu nle nue l u) = d"
| "combineDim k = 0"

fun combineIndex :: "opkind \<Rightarrow> int" where
  "combineIndex (CombineOp d i nl nu nle nue l u) = i"
| "combineIndex k = 0"

fun unrollAttr :: "opkind \<Rightarrow> int list option" where
  "unrollAttr (ReturnOp u) = u"
| "unrollAttr k = None"

text \<open>
  \<^verbatim>\<open>CombineOp::getLowerDefiningOps\<close> and \<^verbatim>\<open>getUpperDefiningOps\<close>: the defining ops of
  the primary and then of the extra operands, each listed once (null for a block
  argument).
\<close>

definition pushDefiningOp :: "nat option list \<Rightarrow> val \<Rightarrow> nat option list" where
  "pushDefiningOp definingOps v =
     (if getDefiningOp v \<in> set definingOps then definingOps
      else definingOps @ [getDefiningOp v])"

definition getLowerDefiningOps :: "operation \<Rightarrow> nat option list" where
  "getLowerDefiningOps c = foldl pushDefiningOp (foldl pushDefiningOp [] (lower c)) (lowerext c)"

definition getUpperDefiningOps :: "operation \<Rightarrow> nat option list" where
  "getUpperDefiningOps c = foldl pushDefiningOp (foldl pushDefiningOp [] (upper c)) (upperext c)"

text \<open>
  \<^verbatim>\<open>cast<stencil::ReturnOp>(applyOp.getBody()->getTerminator())\<close>: the last operation
  of the body, which must be a return op.
\<close>

definition getReturnOp :: "func \<Rightarrow> nat \<Rightarrow> error + nat" where
  "getReturnOp g a =
     (case getBlockOps g (RegionOf a 0) of
        [] \<Rightarrow> Inl (AssertionFailed ''getTerminator: empty block'')
      | x # xs \<Rightarrow>
          (case ops g (last (x # xs)) of
             None \<Rightarrow> Inl (AssertionFailed ''cast<ReturnOp>'')
           | Some ret \<Rightarrow>
               (case kind ret of
                  ReturnOp u \<Rightarrow> Inr (last (x # xs))
                | other \<Rightarrow> Inl (AssertionFailed ''cast<ReturnOp>''))))"

definition getUnroll :: "func \<Rightarrow> nat \<Rightarrow> int list option" where
  "getUnroll g r = (case ops g r of None \<Rightarrow> None | Some ret \<Rightarrow> unrollAttr (kind ret))"

text \<open>
  The test both rewrites make on the two return ops:
  \<^verbatim>\<open>getUnrollFac() != getUnrollFac() || getUnrollDim() != getUnrollDim()\<close>.
\<close>

definition unrollMismatch :: "int list option \<Rightarrow> int list option \<Rightarrow> error + bool" where
  "unrollMismatch u1 u2 =
     (if getUnrollFac u1 \<noteq> getUnrollFac u2 then Inr True
      else (case getUnrollDim u1 of
              Inl e \<Rightarrow> Inl e
            | Inr d1 \<Rightarrow> (case getUnrollDim u2 of Inl e \<Rightarrow> Inl e | Inr d2 \<Rightarrow> Inr (d1 \<noteq> d2))))"


section \<open>The fuse rewrite\<close>

type_synonym pattern = "nat \<Rightarrow> rewriter \<Rightarrow> error + (logical_result \<times> rewriter)"

text \<open>
  \<^verbatim>\<open>FuseRewrite::fuseApplyOps\<close>, after its checks: the new apply op is created and
  the two bodies are merged into it, the new return op is introduced and the old ones
  are erased, and the uses of the two apply ops are replaced.
\<close>

definition fuseIntoNewApply ::
  "operation \<Rightarrow> operation \<Rightarrow> nat \<Rightarrow> nat \<Rightarrow> nat \<Rightarrow> nat \<Rightarrow> rewriter \<Rightarrow> rewriter" where
  "fuseIntoNewApply op1 op2 applyOp1 applyOp2 returnOp1 returnOp2 rw =
     (let newResultTypes = resultTypes op1 @ resultTypes op2;
          newOperands = operands op1 @ operands op2;
          newOp = nextId (graph rw);
          rw1 = create (buildApplyOp (graph rw) newResultTypes newOperands
                          (lbAttr (kind op1)) (ubAttr (kind op1))) rw;
          rw2 = mergeBlocks (RegionOf applyOp1 0) (RegionOf newOp 0)
                  (take (length (operands op1)) (getArguments (graph rw1) (RegionOf newOp 0))) rw1;
          args2 = getArguments (graph rw2) (RegionOf newOp 0);
          rw3 = mergeBlocks (RegionOf applyOp2 0) (RegionOf newOp 0)
                  (drop (length args2 - length (operands op2)) args2) rw2;
          newReturnOperands = getOperands (graph rw3) returnOp1 @ getOperands (graph rw3) returnOp2;
          rw4 = setInsertionPointToEnd (RegionOf newOp 0) rw3;
          rw5 = create (buildReturnOp newReturnOperands (getUnroll (graph rw4) returnOp1)) rw4;
          rw6 = eraseOp returnOp1 rw5;
          rw7 = eraseOp returnOp2 rw6;
          res7 = getResults (graph rw7) newOp;
          rw8 = replaceOp applyOp1 (take (length (resultTypes op1)) res7) rw7;
          res8 = getResults (graph rw8) newOp
      in replaceOp applyOp2 (drop (length res8 - length (resultTypes op2)) res8) rw8)"

text \<open>\<^verbatim>\<open>FuseRewrite::fuseApplyOps\<close>.\<close>

definition fuseApplyOps ::
  "shapeop_iface \<Rightarrow> nat \<Rightarrow> nat \<Rightarrow> nat \<Rightarrow> rewriter \<Rightarrow> error + (logical_result \<times> rewriter)" where
  "fuseApplyOps S applyOp1 applyOp2 combineOp rw =
     (case ops (graph rw) applyOp1 of
        None \<Rightarrow> Inl (AssertionFailed ''cast<ApplyOp>'')
      | Some op1 \<Rightarrow>
     (case ops (graph rw) applyOp2 of
        None \<Rightarrow> Inl (AssertionFailed ''cast<ApplyOp>'')
      | Some op2 \<Rightarrow>
     if \<not> isApplyOp (kind op1) \<or> \<not> isApplyOp (kind op2) then
       Inl (AssertionFailed ''cast<ApplyOp>'')
     else if hasShape S (kind op1) \<and> hasShape S (kind op2) \<and>
             (getLB S (kind op1) \<noteq> getLB S (kind op2) \<and>
              getUB S (kind op1) \<noteq> getUB S (kind op2)) then
       Inr (failure, emitWarning combineOp ''expected shapes to match'' rw)
     else
       (case getReturnOp (graph rw) applyOp1 of Inl e \<Rightarrow> Inl e | Inr returnOp1 \<Rightarrow>
        case getReturnOp (graph rw) applyOp2 of Inl e \<Rightarrow> Inl e | Inr returnOp2 \<Rightarrow>
        case unrollMismatch (getUnroll (graph rw) returnOp1) (getUnroll (graph rw) returnOp2) of
          Inl e \<Rightarrow> Inl e
        | Inr True \<Rightarrow> Inr (failure, emitWarning combineOp ''expected matching unroll configurations'' rw)
        | Inr False \<Rightarrow>
            Inr (success, fuseIntoNewApply op1 op2 applyOp1 applyOp2 returnOp1 returnOp2 rw))))"

text \<open>
  \<^verbatim>\<open>FuseRewrite::matchAndRewrite\<close>: the upper defining ops are looked at first, then the
  lower ones; the first two ops of the first side with more than one are fused.
\<close>

definition castApplyOp :: "nat option \<Rightarrow> error + nat" where
  "castApplyOp po = (case po of None \<Rightarrow> Inl (AssertionFailed ''cast<ApplyOp>'') | Some p \<Rightarrow> Inr p)"

fun fuseFirstSide ::
  "shapeop_iface \<Rightarrow> nat \<Rightarrow> rewriter \<Rightarrow> nat option list list \<Rightarrow> error + (logical_result \<times> rewriter)" where
  "fuseFirstSide S combineOp rw [] = Inr (failure, rw)"
| "fuseFirstSide S combineOp rw (definingOps # sides) =
     (case definingOps of
        d1 # d2 # others \<Rightarrow>
          (case castApplyOp d1 of Inl e \<Rightarrow> Inl e | Inr applyOp1 \<Rightarrow>
           case castApplyOp d2 of Inl e \<Rightarrow> Inl e | Inr applyOp2 \<Rightarrow>
             fuseApplyOps S applyOp1 applyOp2 combineOp rw)
      | other \<Rightarrow> fuseFirstSide S combineOp rw sides)"

definition FuseRewrite :: "shapeop_iface \<Rightarrow> pattern" where
  "FuseRewrite S combineOp rw =
     (case ops (graph rw) combineOp of
        None \<Rightarrow> Inr (failure, rw)
      | Some c \<Rightarrow>
          if \<not> isCombineOp (kind c) then Inr (failure, rw)
          else fuseFirstSide S combineOp rw [getUpperDefiningOps c, getLowerDefiningOps c])"

section \<open>The if/else rewrite\<close>

text \<open>
  Modelled from the spec: the constant \<^verbatim>\<open>kIndexSize\<close> (\<^verbatim>\<open>StencilUtils.h\<close>, not among
  the source files) is the rank of an index, which is 3 (\<^verbatim>\<open>Stencil_Index\<close> is an array
  of 3 entries).
\<close>

definition kIndexSize :: nat where
  "kIndexSize = 3"

text \<open>
  \<^verbatim>\<open>IfElseRewrite::permuteReturnOpOperands\<close>. \<open>numResults\<close> is the number of results of
  the apply op, from which the result-to-index mapping is built; the lookup of a value
  that is not in the mapping gives 0. The slice of the return op operands must lie
  within them.
\<close>

fun resultToIndex :: "nat \<Rightarrow> nat \<Rightarrow> val \<Rightarrow> nat" where
  "resultToIndex applyOp numResults (OpResult p k) = (if p = applyOp \<and> k < numResults then k else 0)"
| "resultToIndex applyOp numResults (BlockArg b k) = 0"

fun permuteReturnOpOperands ::
  "nat \<Rightarrow> nat \<Rightarrow> val list \<Rightarrow> nat \<Rightarrow> val list \<Rightarrow> error + val list" where
  "permuteReturnOpOperands applyOp numResults [] unrollFac returnOperands = Inr []"
| "permuteReturnOpOperands applyOp numResults (v # vs) unrollFac returnOperands =
     (if getDefiningOp v \<noteq> Some applyOp then
        Inl (AssertionFailed ''expected operand is defined apply op'')
      else if length returnOperands < resultToIndex applyOp numResults v * unrollFac + unrollFac then
        Inl (AssertionFailed ''slice: invalid range'')
      else
        (case permuteReturnOpOperands applyOp numResults vs unrollFac returnOperands of
           Inl e \<Rightarrow> Inl e
         | Inr rest \<Rightarrow>
             Inr (take unrollFac (drop (resultToIndex applyOp numResults v * unrollFac) returnOperands)
                  @ rest)))"

text \<open>
  The first part of \<^verbatim>\<open>IfElseRewrite::lowerStencilCombine\<close>: the new apply op is created
  at the insertion point, and the index, constant and comparison ops of the branch
  condition are created at the start of its body.
\<close>

definition createBranchCondition :: "operation \<Rightarrow> nat \<Rightarrow> nat \<Rightarrow> rewriter \<Rightarrow> rewriter" where
  "createBranchCondition c lowerOp upperOp rw =
     (let newOperands = getOperands (graph rw) lowerOp @ getOperands (graph rw) upperOp;
          newOp = nextId (graph rw);
          rw1 = create (buildApplyOp (graph rw) (resultTypes c) newOperands
                          (lbAttr (kind c)) (ubAttr (kind c))) rw;
          rw2 = setInsertionPointToStart (RegionOf newOp 0) rw1;
          indexOp = nextId (graph rw2);
          rw3 = create (buildIndexOp (combineDim (kind c)) (replicate kIndexSize 0)) rw2;
          constOp = nextId (graph rw3);
          rw4 = create (buildConstantOp (combineIndex (kind c))) rw3
      in create (buildCmpIOp ult (OpResult indexOp 0) (OpResult constOp 0)) rw4)"

text \<open>The if op with the given result types on the comparison, and the return op of its results.\<close>

definition createIfAndReturn :: "mtype list \<Rightarrow> nat \<Rightarrow> nat \<Rightarrow> rewriter \<Rightarrow> rewriter" where
  "createIfAndReturn types cmpOp lowerReturnOp rw =
     (let ifOp = nextId (graph rw);
          rw1 = create (buildIfOp types (OpResult cmpOp 0)) rw
      in create (buildReturnOp (getResults (graph rw1) ifOp) (getUnroll (graph rw1) lowerReturnOp)) rw1)"

text \<open>\<^verbatim>\<open>rewriter.replaceOpWithNewOp<scf::YieldOp>\<close> with the insertion point set to the op.\<close>

definition replaceByYield :: "nat \<Rightarrow> val list \<Rightarrow> rewriter \<Rightarrow> rewriter" where
  "replaceByYield returnOp yielded rw =
     (let rw1 = setInsertionPoint returnOp rw;
          yieldOp = nextId (graph rw1);
          rw2 = create (buildYieldOp yielded) rw1
      in replaceOp returnOp (getResults (graph rw2) yieldOp) rw2)"

text \<open>
  The last part: both bodies are merged into the branches of the if op, the combine op
  is replaced by the new apply op, and the two apply ops are erased. The argument values
  of both merges are the leading block arguments of the new apply op.
\<close>

definition moveBodies :: "nat \<Rightarrow> nat \<Rightarrow> nat \<Rightarrow> nat \<Rightarrow> nat \<Rightarrow> rewriter \<Rightarrow> rewriter" where
  "moveBodies lowerOp upperOp combineOp newOp ifOp rw =
     (let rw1 = mergeBlocks (RegionOf lowerOp 0) (RegionOf ifOp 0)
                  (take (length (getOperands (graph rw) lowerOp))
                     (getArguments (graph rw) (RegionOf newOp 0))) rw;
          rw2 = mergeBlocks (RegionOf upperOp 0) (RegionOf ifOp 1)
                  (take (length (getOperands (graph rw1) upperOp))
                     (getArguments (graph rw1) (RegionOf newOp 0))) rw1;
          rw3 = replaceOp combineOp (getResults (graph rw2) newOp) rw2;
          rw4 = eraseOp upperOp rw3
      in eraseOp lowerOp rw4)"

text \<open>\<^verbatim>\<open>IfElseRewrite::lowerStencilCombine\<close>.\<close>

definition lowerStencilCombine ::
  "nat \<Rightarrow> nat \<Rightarrow> nat \<Rightarrow> rewriter \<Rightarrow> error + (logical_result \<times> rewriter)" where
  "lowerStencilCombine lowerOp upperOp combineOp rw =
     (case ops (graph rw) combineOp of
        None \<Rightarrow> Inl (AssertionFailed ''no combine op'')
      | Some c \<Rightarrow>
     (let newOp = nextId (graph rw);
          rw5 = createBranchCondition c lowerOp upperOp rw;
          cmpOp = nextId (graph rw5) - 1;
          ifOp = nextId (graph rw5)
      in
      case getReturnOp (graph rw5) lowerOp of Inl e \<Rightarrow> Inl e | Inr lowerReturnOp \<Rightarrow>
      case getReturnOp (graph rw5) upperOp of Inl e \<Rightarrow> Inl e | Inr upperReturnOp \<Rightarrow>
      case unrollMismatch (getUnroll (graph rw5) lowerReturnOp) (getUnroll (graph rw5) upperReturnOp) of
        Inl e \<Rightarrow> Inl e
      | Inr True \<Rightarrow> Inr (failure, emitWarning combineOp ''expected matching unroll configurations'' rw5)
      | Inr False \<Rightarrow>
          if map (typeOf (graph rw5)) (getOperands (graph rw5) lowerReturnOp)
               \<noteq> map (typeOf (graph rw5)) (getOperands (graph rw5) upperReturnOp) then
            Inl (AssertionFailed ''expected both apply ops to return the same types'')
          else if map (typeOf (graph rw5)) (getOperands (graph rw5) lowerReturnOp) = [] then
            Inl (AssertionFailed ''expected apply ops to return at least one value'')
          else
            (let rw8 = createIfAndReturn
                         (map (typeOf (graph rw5)) (getOperands (graph rw5) lowerReturnOp))
                         cmpOp lowerReturnOp rw5
             in
             case permuteReturnOpOperands lowerOp (length (getResultTypes (graph rw8) lowerOp))
                    (lower c) (getUnrollFac (getUnroll (graph rw8) lowerReturnOp))
                    (getOperands (graph rw8) lowerReturnOp) of
               Inl e \<Rightarrow> Inl e
             | Inr lowerYield \<Rightarrow>
            (let rw10 = replaceByYield lowerReturnOp lowerYield rw8
             in
             case permuteReturnOpOperands upperOp (length (getResultTypes (graph rw10) upperOp))
                    (upper c) (getUnrollFac (getUnroll (graph rw10) upperReturnOp))
                    (getOperands (graph rw10) upperReturnOp) of
               Inl e \<Rightarrow> Inl e
             | Inr upperYield \<Rightarrow>
                 Inr (success,
                      moveBodies lowerOp upperOp combineOp newOp ifOp
                        (replaceByYield upperReturnOp upperYield rw10))))))"

text \<open>
  \<^verbatim>\<open>dyn_cast<stencil::ApplyOp>\<close> of a defining op: null unless the operation is an apply
  op; it asserts that its argument is not null.
\<close>

definition dynCastApplyOp :: "func \<Rightarrow> nat option \<Rightarrow> error + nat option" where
  "dynCastApplyOp g po =
     (case isa g isApplyOp po of
        Inl e \<Rightarrow> Inl e
      | Inr isApply \<Rightarrow> Inr (if isApply then po else None))"

text \<open>\<^verbatim>\<open>IfElseRewrite::matchAndRewrite\<close>.\<close>

definition IfElseRewrite :: pattern where
  "IfElseRewrite combineOp rw =
     (case ops (graph rw) combineOp of
        None \<Rightarrow> Inr (failure, rw)
      | Some c \<Rightarrow>
          if \<not> isCombineOp (kind c) then Inr (failure, rw)
          else if lowerext c \<noteq> [] \<or> upperext c \<noteq> [] then Inr (failure, rw)
          else
            (case (getLowerDefiningOps c, getUpperDefiningOps c) of
               ([definingLowerOp], [definingUpperOp]) \<Rightarrow>
                 (case dynCastApplyOp (graph rw) definingLowerOp of
                    Inl e \<Rightarrow> Inl e
                  | Inr lowerCast \<Rightarrow>
                 (case dynCastApplyOp (graph rw) definingUpperOp of
                    Inl e \<Rightarrow> Inl e
                  | Inr upperCast \<Rightarrow>
                 (case (lowerCast, upperCast) of
                    (Some lowerOp, Some upperOp) \<Rightarrow>
                      lowerStencilCombine lowerOp upperOp combineOp rw
                  | other \<Rightarrow> Inr (failure, rw))))
             | other \<Rightarrow> Inr (failure, rw)))"

section \<open>The mirror rewrite\<close>

text \<open>
  Modelled from the spec: \<^verbatim>\<open>applyFunElementWise\<close> (\<^verbatim>\<open>StencilUtils.h\<close>, not among the
  source files) combines two indices pointwise.
\<close>

definition applyFunElementWise :: "int list \<Rightarrow> int list \<Rightarrow> (int \<Rightarrow> int \<Rightarrow> int) \<Rightarrow> int list" where
  "applyFunElementWise xs ys f = map2 f xs ys"

text \<open>\<^verbatim>\<open>cast<TempType>().getElementType()\<close>: defined on temporaries only.\<close>

fun tempElementType :: "mtype \<Rightarrow> elemtype option" where
  "tempElementType (TempType e s) = Some e"
| "tempElementType t = None"

text \<open>
  The second loop of \<^verbatim>\<open>addEmptyStores\<close>: for each extra operand a store result op
  without operand is created, and its result is appended \<open>unrollFac\<close> times to the
  operands of the new return op.
\<close>

fun insertEmptyStores :: "elemtype list \<Rightarrow> nat \<Rightarrow> val list \<Rightarrow> rewriter \<Rightarrow> val list \<times> rewriter" where
  "insertEmptyStores [] unrollFac newOperands rw = (newOperands, rw)"
| "insertEmptyStores (e # es) unrollFac newOperands rw =
     insertEmptyStores es unrollFac
       (newOperands @ replicate unrollFac (OpResult (nextId (graph rw)) 0))
       (create (buildStoreResultOp (ResultType e) []) rw)"

text \<open>
  The middle part of \<^verbatim>\<open>addEmptyStores\<close>: the apply op is created anew before the old
  one, with the new result types, and takes over the body.
\<close>

definition recreateApply :: "operation \<Rightarrow> nat \<Rightarrow> mtype list \<Rightarrow> rewriter \<Rightarrow> rewriter" where
  "recreateApply oper applyOp newResultTypes rw =
     (let rw1 = setInsertionPoint applyOp rw;
          newOp = nextId (graph rw1);
          rw2 = create (buildApplyOp (graph rw1) newResultTypes (operands oper)
                          (lbAttr (kind oper)) (ubAttr (kind oper))) rw1
      in mergeBlocks (RegionOf applyOp 0) (RegionOf newOp 0)
           (getArguments (graph rw2) (RegionOf newOp 0)) rw2)"

text \<open>
  The last part: the empty stores are inserted before the return op, which is replaced
  by a return op of the old operands followed by the empty stores.
\<close>

definition appendEmptyStores :: "elemtype list \<Rightarrow> nat \<Rightarrow> rewriter \<Rightarrow> rewriter" where
  "appendEmptyStores elems returnOp rw =
     (let rw1 = setInsertionPoint returnOp rw;
          stored = insertEmptyStores elems (getUnrollFac (getUnroll (graph rw1) returnOp))
                     (getOperands (graph rw1) returnOp) rw1;
          rw2 = create (buildReturnOp (fst stored) (getUnroll (graph (snd stored)) returnOp))
                  (snd stored)
      in eraseOp returnOp rw2)"

text \<open>\<^verbatim>\<open>MirrorRewrite::addEmptyStores\<close>; the result is the new apply op.\<close>

definition addEmptyStores ::
  "shapeop_iface \<Rightarrow> nat \<Rightarrow> val list \<Rightarrow> rewriter \<Rightarrow> error + (nat \<times> rewriter)" where
  "addEmptyStores S applyOp extras rw =
     (case ops (graph rw) applyOp of
        None \<Rightarrow> Inl (AssertionFailed ''no apply op'')
      | Some oper \<Rightarrow>
          if \<not> list_all (\<lambda>operand. tempElementType (typeOf (graph rw) operand) \<noteq> None) extras then
            Inl (AssertionFailed ''cast<TempType>'')
          else
            (let elems = map (\<lambda>operand. the (tempElementType (typeOf (graph rw) operand))) extras;
                 newShape = applyFunElementWise (getUB S (kind oper)) (getLB S (kind oper)) (\<lambda>x y. x - y);
                 newResultTypes = resultTypes oper @ map (\<lambda>e. TempType e newShape) elems;
                 newOp = nextId (graph rw);
                 rw3 = recreateApply oper applyOp newResultTypes rw
             in
             case getReturnOp (graph rw3) newOp of
               Inl e \<Rightarrow> Inl e
             | Inr returnOp \<Rightarrow> Inr (newOp, appendEmptyStores elems returnOp rw3)))"

text \<open>\<^verbatim>\<open>MirrorRewrite::appendOperandRange\<close>, giving the values it appends.\<close>

fun appendOperandRange :: "nat \<Rightarrow> nat \<Rightarrow> nat \<Rightarrow> val list \<Rightarrow> error + val list" where
  "appendOperandRange oldOp numResults newOp [] = Inr []"
| "appendOperandRange oldOp numResults newOp (v # vs) =
     (case v of
        OpResult p k \<Rightarrow>
          if p = oldOp \<and> k < numResults then
            (case appendOperandRange oldOp numResults newOp vs of
               Inl e \<Rightarrow> Inl e
             | Inr rest \<Rightarrow> Inr (OpResult newOp k # rest))
          else Inl (AssertionFailed ''expected to find the result matching the combine operand'')
      | BlockArg b k \<Rightarrow>
          Inl (AssertionFailed ''expected to find the result matching the combine operand''))"

text \<open>
  The last part of \<^verbatim>\<open>mirrorExtraResults\<close>: the new combine op without extra operands
  is created before the old one and replaces it, and the two old apply ops are erased.
\<close>

definition replaceCombine ::
  "operation \<Rightarrow> nat \<Rightarrow> nat \<Rightarrow> nat \<Rightarrow> val list \<Rightarrow> val list \<Rightarrow> rewriter \<Rightarrow> rewriter" where
  "replaceCombine c combineOp lowerOp upperOp newLowerOperands newUpperOperands rw =
     (let rw1 = setInsertionPoint combineOp rw;
          newOp = nextId (graph rw1);
          rw2 = create (buildCombineOp (resultTypes c) (combineDim (kind c)) (combineIndex (kind c))
                          newLowerOperands newUpperOperands [] []
                          (lbAttr (kind c)) (ubAttr (kind c))) rw1;
          rw3 = replaceOp combineOp (getResults (graph rw2) newOp) rw2;
          rw4 = eraseOp lowerOp rw3
      in eraseOp upperOp rw4)"

text \<open>\<^verbatim>\<open>MirrorRewrite::mirrorExtraResults\<close>.\<close>

definition mirrorExtraResults ::
  "shapeop_iface \<Rightarrow> nat \<Rightarrow> nat \<Rightarrow> nat \<Rightarrow> rewriter \<Rightarrow> error + (logical_result \<times> rewriter)" where
  "mirrorExtraResults S lowerOp upperOp combineOp rw =
     (case ops (graph rw) combineOp of
        None \<Rightarrow> Inl (AssertionFailed ''no combine op'')
      | Some c0 \<Rightarrow>
     case addEmptyStores S lowerOp (upperext c0) rw of Inl e \<Rightarrow> Inl e | Inr (newLowerOp, rwa) \<Rightarrow>
     (case ops (graph rwa) combineOp of
        None \<Rightarrow> Inl (AssertionFailed ''no combine op'')
      | Some c1 \<Rightarrow>
     case addEmptyStores S upperOp (lowerext c1) rwa of Inl e \<Rightarrow> Inl e | Inr (newUpperOp, rwb) \<Rightarrow>
     (case ops (graph rwb) combineOp of
        None \<Rightarrow> Inl (AssertionFailed ''no combine op'')
      | Some c \<Rightarrow>
      case appendOperandRange lowerOp (length (getResultTypes (graph rwb) lowerOp)) newLowerOp (lower c) of
        Inl e \<Rightarrow> Inl e | Inr lowers \<Rightarrow>
      case appendOperandRange upperOp (length (getResultTypes (graph rwb) upperOp)) newUpperOp (upper c) of
        Inl e \<Rightarrow> Inl e | Inr uppers \<Rightarrow>
      case appendOperandRange lowerOp (length (getResultTypes (graph rwb) lowerOp)) newLowerOp (lowerext c) of
        Inl e \<Rightarrow> Inl e | Inr lowerExtras \<Rightarrow>
      case appendOperandRange upperOp (length (getResultTypes (graph rwb) upperOp)) newUpperOp (upperext c) of
        Inl e \<Rightarrow> Inl e | Inr upperExtras \<Rightarrow>
        Inr (success,
             replaceCombine c combineOp lowerOp upperOp
               (lowers @ lowerExtras
                  @ drop (length (getResults (graph rwb) newLowerOp) - length (upperext c))
                      (getResults (graph rwb) newLowerOp))
               (uppers
                  @ drop (length (getResults (graph rwb) newUpperOp) - length (lowerext c))
                      (getResults (graph rwb) newUpperOp)
                  @ upperExtras)
               rwb))))"

text \<open>\<^verbatim>\<open>MirrorRewrite::matchAndRewrite\<close>.\<close>

definition MirrorRewrite :: "shapeop_iface \<Rightarrow> pattern" where
  "MirrorRewrite S combineOp rw =
     (case ops (graph rw) combineOp of
        None \<Rightarrow> Inr (failure, rw)
      | Some c \<Rightarrow>
          if \<not> isCombineOp (kind c) then Inr (failure, rw)
          else if lowerext c = [] \<and> upperext c = [] then Inr (failure, rw)
          else
            (case (getLowerDefiningOps c, getUpperDefiningOps c) of
               ([definingLowerOp], [definingUpperOp]) \<Rightarrow>
                 (case dynCastApplyOp (graph rw) definingLowerOp of
                    Inl e \<Rightarrow> Inl e
                  | Inr lowerCast \<Rightarrow>
                 (case dynCastApplyOp (graph rw) definingUpperOp of
                    Inl e \<Rightarrow> Inl e
                  | Inr upperCast \<Rightarrow>
                 (case (lowerCast, upperCast) of
                    (Some lowerOp, Some upperOp) \<Rightarrow>
                      mirrorExtraResults S lowerOp upperOp combineOp rw
                  | other \<Rightarrow> Inr (failure, rw))))
             | other \<Rightarrow> Inr (failure, rw)))"

section \<open>The pass\<close>

text \<open>
  \<^verbatim>\<open>InternalIfElseRewrite::matchAndRewrite\<close>. \<^verbatim>\<open>getCombineTreeRoot\<close> is declared in the
  op definition and defined outside the source files: it is a parameter.
\<close>

definition InternalIfElseRewrite :: "(func \<Rightarrow> nat \<Rightarrow> nat) \<Rightarrow> pattern" where
  "InternalIfElseRewrite getCombineTreeRoot combineOp rw =
     (let rootOp = getCombineTreeRoot (graph rw) combineOp in
      if \<not> list_ex (\<lambda>p. isaOp (graph rw) isApplyOp p)
               (concat (map (getUsers (graph rw)) (getResults (graph rw) rootOp)))
      then Inr (failure, rw)
      else IfElseRewrite combineOp rw)"

text \<open>The walk over the combine ops of the function that looks for an operand without exactly one use.\<close>

definition hasOperandsWithMultipleUses :: "func \<Rightarrow> bool" where
  "hasOperandsWithMultipleUses g =
     list_ex (\<lambda>i. case ops g i of
                    None \<Rightarrow> False
                  | Some c \<Rightarrow> isCombineOp (kind c) \<and> list_ex (\<lambda>operand. \<not> hasOneUse g operand) (operands c))
             [0..<nextId g]"

record pass_result =
  final :: rewriter
  passFailed :: bool

text \<open>
  \<^verbatim>\<open>CombineToIfElsePass::runOnFunction\<close>. The greedy pattern driver
  (\<^verbatim>\<open>applyPatternsAndFoldGreedily\<close>) belongs to the framework and is a parameter.
\<close>

definition runOnFunction ::
  "shapeop_iface \<Rightarrow> (func \<Rightarrow> nat \<Rightarrow> nat) \<Rightarrow> (pattern list \<Rightarrow> rewriter \<Rightarrow> rewriter)
     \<Rightarrow> bool \<Rightarrow> rewriter \<Rightarrow> pass_result" where
  "runOnFunction S getCombineTreeRoot applyPatternsAndFoldGreedily internalOnly rw =
     (if \<not> isStencilProgram (graph rw) then \<lparr> final = rw, passFailed = False \<rparr>
      else if hasOperandsWithMultipleUses (graph rw) then
        \<lparr> final = rw\<lparr>diags := diags rw
                      @ [FuncOpError ''execute domain splitting before combine op conversion'']\<rparr>,
          passFailed = True \<rparr>
      else
        \<lparr> final = applyPatternsAndFoldGreedily
                    (if internalOnly then [InternalIfElseRewrite getCombineTreeRoot]
                     else [IfElseRewrite, MirrorRewrite S, FuseRewrite S]) rw,
          passFailed = False \<rparr>)"


section \<open>How the fuse rewrite redirects the uses\<close>


section \<open>How the if/else rewrite redirects the uses\<close>

text \<open>
  What a use \<open>v\<close> holds after the if/else rewrite of the combine op \<open>c\<close> (with \<open>k\<close> results)
  over the apply ops \<open>l\<close> and \<open>u\<close> into the apply op \<open>n\<close>: result \<open>i\<close> of \<open>c\<close> has become
  result \<open>i\<close> of \<open>n\<close>; the first \<open>ml\<close> arguments of the body of \<open>l\<close> and the first \<open>mu\<close>
  arguments of the body of \<open>u\<close> have become the arguments of the body of \<open>n\<close> at the same
  positions (both merges of \<^verbatim>\<open>lowerStencilCombine\<close> take the leading arguments); every
  other value is the same.
\<close>

definition ifElseRedirect :: "nat \<Rightarrow> nat \<Rightarrow> nat \<Rightarrow> nat \<Rightarrow> nat \<Rightarrow> nat \<Rightarrow> nat \<Rightarrow> val \<Rightarrow> val" where
  "ifElseRedirect l ml u mu c k n v =
     (case v of
        OpResult p i \<Rightarrow> if p = c \<and> i < k then OpResult n i else v
      | BlockArg b i \<Rightarrow>
          if b = RegionOf l 0 \<and> i < ml then BlockArg (RegionOf n 0) i
          else if b = RegionOf u 0 \<and> i < mu then BlockArg (RegionOf n 0) i
          else v)"

section \<open>A standard reading of the interfaces and example graphs\<close>

fun shapeOf :: "mtype \<Rightarrow> int list" where
  "shapeOf (TempType e s) = s"
| "shapeOf (FieldType e s) = s"
| "shapeOf t = []"

text \<open>
  Modelled from the spec: the \<^verbatim>\<open>ShapeOp\<close> interface (\<^verbatim>\<open>StencilInterfaces.td\<close> is not
  among the source files). \<open>hasShape\<close> is true iff both \<open>lb\<close> and \<open>ub\<close> are present, and
  the op exposes its own bound pair.
\<close>

definition stdShapeOp :: shapeop_iface where
  "stdShapeOp =
     \<lparr> hasShape = (\<lambda>k. lbAttr k \<noteq> None \<and> ubAttr k \<noteq> None),
       getLB = (\<lambda>k. case lbAttr k of None \<Rightarrow> [] | Some l \<Rightarrow> l),
       getUB = (\<lambda>k. case ubAttr k of None \<Rightarrow> [] | Some u \<Rightarrow> u) \<rparr>"

text \<open>
  Modelled from the spec: the queries of \<^verbatim>\<open>GridType\<close> (\<^verbatim>\<open>StencilTypes.h\<close> is not
  among the source files). The shape is dynamic iff some axis is the dynamic marker
  (written \<open>- 1\<close>), the rank is the number of axes, a type is large enough for a bound
  pair when every axis holds the extent \<open>ub - lb\<close>; the allocation is not modelled.
\<close>

definition stdGridType :: "unit gridtype_iface" where
  "stdGridType =
     \<lparr> hasDynamicShape = (\<lambda>t. list_ex (\<lambda>d. d = - 1) (shapeOf t)),
       getRank = (\<lambda>t. length (shapeOf t)),
       getAllocation = (\<lambda>t. ()),
       hasLargerOrEqualShape =
         (\<lambda>t lb ub. list_all2 (\<lambda>s d. d \<le> s) (shapeOf t) (map2 (\<lambda>u l. u - l) ub lb)) \<rparr>"

text \<open>
  A function that casts its argument, computes one temporary with an apply op and
  stores it to the cast field.
\<close>

definition storeOpExample :: operation where
  "storeOpExample =
     \<lparr> kind = StoreOp [0, 0, 0] [64, 64, 60],
       operands = [OpResult 1 0, OpResult 0 0],
       resultTypes = [], regions = [] \<rparr>"

definition storeExample :: "int list option \<Rightarrow> val list \<Rightarrow> func" where
  "storeExample unroll returned =
     \<lparr> isStencilProgram = True,
       fblock = \<lparr> bargs = [FieldType F64 [- 1, - 1, - 1]], bops = [0, 1, 4] \<rparr>,
       ops = [0 \<mapsto> \<lparr> kind = CastOp [- 3, - 3, 0] [67, 67, 60],
                       operands = [BlockArg FuncBody 0],
                       resultTypes = [FieldType F64 [70, 70, 60]], regions = [] \<rparr>,
              1 \<mapsto> \<lparr> kind = ApplyOp (Some [0, 0, 0]) (Some [64, 64, 60]),
                       operands = [],
                       resultTypes = [TempType F64 [64, 64, 60]],
                       regions = [[\<lparr> bargs = [], bops = [2, 3] \<rparr>]] \<rparr>,
              2 \<mapsto> \<lparr> kind = StoreResultOp, operands = [],
                       resultTypes = [ResultType F64], regions = [] \<rparr>,
              3 \<mapsto> \<lparr> kind = ReturnOp unroll, operands = returned,
                       resultTypes = [], regions = [] \<rparr>,
              4 \<mapsto> storeOpExample],
       nextId = 5 \<rparr>"

text \<open>The same function with a load of the output field added.\<close>

definition storeLoadExample :: func where
  "storeLoadExample =
     (storeExample None [OpResult 2 0])
       \<lparr> ops := (ops (storeExample None [OpResult 2 0]))
                   (5 \<mapsto> \<lparr> kind = LoadOp None None, operands = [OpResult 0 0],
                            resultTypes = [TempType F64 [70, 70, 60]], regions = [] \<rparr>),
         nextId := 6 \<rparr>"

text \<open>
  The function with a second argument, a temporary, that the store op writes to the
  cast field: the stored temp is a block argument and has no defining op.
\<close>

definition storeArgOpExample :: operation where
  "storeArgOpExample = storeOpExample\<lparr>operands := [BlockArg FuncBody 1, OpResult 0 0]\<rparr>"

definition storeArgExample :: func where
  "storeArgExample =
     (storeExample None [OpResult 2 0])
       \<lparr> fblock := \<lparr> bargs = [FieldType F64 [- 1, - 1, - 1], TempType F64 [64, 64, 60]],
                     bops = [0, 1, 4] \<rparr>,
         ops := (ops (storeExample None [OpResult 2 0]))(4 \<mapsto> storeArgOpExample) \<rparr>"

text \<open>
  The example scenario of the specification: two apply ops over the bound pair
  \<open>[0,0,0]:[64,64,60]\<close>, each with one \<open>f64\<close> result and no unroll attribute, feed a
  combine op with \<open>dim = 2\<close>, \<open>index = 30\<close>, \<open>lower = [A]\<close>, \<open>upper = [B]\<close> and no extra
  operands. \<open>A\<close> (operation 0) reads the first and \<open>B\<close> (operation 4) the second argument
  of the function; operation 9 uses the result of the combine op (operation 8).
\<close>

definition temp64 :: mtype where
  "temp64 = TempType F64 [64, 64, 60]"

definition ifElseExample :: func where
  "ifElseExample =
     \<lparr> isStencilProgram = True,
       fblock = \<lparr> bargs = [temp64, temp64], bops = [0, 4, 8, 9] \<rparr>,
       ops = [0 \<mapsto> \<lparr> kind = ApplyOp (Some [0, 0, 0]) (Some [64, 64, 60]),
                       operands = [BlockArg FuncBody 0],
                       resultTypes = [temp64],
                       regions = [[\<lparr> bargs = [temp64], bops = [1, 2, 3] \<rparr>]] \<rparr>,
              1 \<mapsto> \<lparr> kind = OtherOp ''stencil.access'', operands = [BlockArg (RegionOf 0 0) 0],
                       resultTypes = [ElementType F64], regions = [] \<rparr>,
              2 \<mapsto> \<lparr> kind = StoreResultOp, operands = [OpResult 1 0],
                       resultTypes = [ResultType F64], regions = [] \<rparr>,
              3 \<mapsto> \<lparr> kind = ReturnOp None, operands = [OpResult 2 0],
                       resultTypes = [], regions = [] \<rparr>,
              4 \<mapsto> \<lparr> kind = ApplyOp (Some [0, 0, 0]) (Some [64, 64, 60]),
                       operands = [BlockArg FuncBody 1],
                       resultTypes = [temp64],
                       regions = [[\<lparr> bargs = [temp64], bops = [5, 6, 7] \<rparr>]] \<rparr>,
              5 \<mapsto> \<lparr> kind = OtherOp ''stencil.access'', operands = [BlockArg (RegionOf 4 0) 0],
                       resultTypes = [ElementType F64], regions = [] \<rparr>,
              6 \<mapsto> \<lparr> kind = StoreResultOp, operands = [OpResult 5 0],
                       resultTypes = [ResultType F64], regions = [] \<rparr>,
              7 \<mapsto> \<lparr> kind = ReturnOp None, operands = [OpResult 6 0],
                       resultTypes = [], regions = [] \<rparr>,
              8 \<mapsto> \<lparr> kind = CombineOp 2 30 1 1 0 0 (Some [0, 0, 0]) (Some [64, 64, 60]),
                       operands = [OpResult 0 0, OpResult 4 0],
                       resultTypes = [temp64], regions = [] \<rparr>,
              9 \<mapsto> \<lparr> kind = OtherOp ''use'', operands = [OpResult 8 0],
                       resultTypes = [], regions = [] \<rparr>],
       nextId = 10 \<rparr>"

text \<open>The example with the return op of \<open>A\<close> unrolled twice along the second axis.\<close>

definition unrollMismatchExample :: func where
  "unrollMismatchExample =
     ifElseExample
       \<lparr> ops := (ops ifElseExample)
                   (3 \<mapsto> \<lparr> kind = ReturnOp (Some [1, 2, 1]),
                            operands = [OpResult 2 0, OpResult 2 0],
                            resultTypes = [], regions = [] \<rparr>) \<rparr>"


text \<open>The rewriter at the start of a pattern application: positioned before the matched op.\<close>

definition rewriterAt :: "nat \<Rightarrow> func \<Rightarrow> rewriter" where
  "rewriterAt x g = \<lparr> graph = g, ip = Before x, diags = [] \<rparr>"

text \<open>
  A combine op (operation 8) whose lower apply op \<open>A\<close> (operation 0) also provides an
  extra value, with return ops unrolled twice.
\<close>

definition mirrorExample :: func where
  "mirrorExample =
     \<lparr> isStencilProgram = True,
       fblock = \<lparr> bargs = [temp64, temp64], bops = [0, 5, 8, 9] \<rparr>,
       ops = [0 \<mapsto> \<lparr> kind = ApplyOp (Some [0, 0, 0]) (Some [64, 64, 30]),
                       operands = [BlockArg FuncBody 0],
                       resultTypes = [TempType F64 [64, 64, 30], TempType F32 [64, 64, 30]],
                       regions = [[\<lparr> bargs = [temp64], bops = [1, 2, 3, 4] \<rparr>]] \<rparr>,
              1 \<mapsto> \<lparr> kind = OtherOp ''stencil.access'', operands = [BlockArg (RegionOf 0 0) 0],
                       resultTypes = [ElementType F64], regions = [] \<rparr>,
              2 \<mapsto> \<lparr> kind = StoreResultOp, operands = [OpResult 1 0],
                       resultTypes = [ResultType F64], regions = [] \<rparr>,
              3 \<mapsto> \<lparr> kind = StoreResultOp, operands = [],
                       resultTypes = [ResultType F32], regions = [] \<rparr>,
              4 \<mapsto> \<lparr> kind = ReturnOp (Some [1, 2, 1]),
                       operands = [OpResult 2 0, OpResult 2 0, OpResult 3 0, OpResult 3 0],
                       resultTypes = [], regions = [] \<rparr>,
              5 \<mapsto> \<lparr> kind = ApplyOp (Some [0, 0, 30]) (Some [64, 64, 60]),
                       operands = [BlockArg FuncBody 1],
                       resultTypes = [TempType F64 [64, 64, 30]],
                       regions = [[\<lparr> bargs = [temp64], bops = [6, 7] \<rparr>]] \<rparr>,
              6 \<mapsto> \<lparr> kind = StoreResultOp, operands = [],
                       resultTypes = [ResultType F64], regions = [] \<rparr>,
              7 \<mapsto> \<lparr> kind = ReturnOp (Some [1, 2, 1]), operands = [OpResult 6 0, OpResult 6 0],
                       resultTypes = [], regions = [] \<rparr>,
              8 \<mapsto> \<lparr> kind = CombineOp 2 30 1 1 1 0 (Some [0, 0, 0]) (Some [64, 64, 60]),
                       operands = [OpResult 0 0, OpResult 5 0, OpResult 0 1],
                       resultTypes = [temp64, TempType F32 [64, 64, 60]], regions = [] \<rparr>,
              9 \<mapsto> \<lparr> kind = OtherOp ''use'', operands = [OpResult 8 0, OpResult 8 1],
                       resultTypes = [], regions = [] \<rparr>],
       nextId = 10 \<rparr>"

text \<open>
  A combine op (operation 10) whose lower side has two apply ops, \<open>A\<close> (operation 0) and
  \<open>B\<close> (operation 3), and whose upper side has one (operation 6). The two lower apply
  ops have the same bounds, given as parameters.
\<close>

definition fuseExample :: "int list \<Rightarrow> int list \<Rightarrow> int list \<Rightarrow> int list \<Rightarrow> func" where
  "fuseExample lb1 ub1 lb2 ub2 =
     \<lparr> isStencilProgram = True,
       fblock = \<lparr> bargs = [temp64, temp64], bops = [0, 3, 6, 10, 11] \<rparr>,
       ops = [0 \<mapsto> \<lparr> kind = ApplyOp (Some lb1) (Some ub1),
                       operands = [BlockArg FuncBody 0],
                       resultTypes = [TempType F64 [64, 64, 30]],
                       regions = [[\<lparr> bargs = [temp64], bops = [1, 2] \<rparr>]] \<rparr>,
              1 \<mapsto> \<lparr> kind = StoreResultOp, operands = [],
                       resultTypes = [ResultType F64], regions = [] \<rparr>,
              2 \<mapsto> \<lparr> kind = ReturnOp None, operands = [OpResult 1 0],
                       resultTypes = [], regions = [] \<rparr>,
              3 \<mapsto> \<lparr> kind = ApplyOp (Some lb2) (Some ub2),
                       operands = [BlockArg FuncBody 1],
                       resultTypes = [TempType F32 [64, 64, 30]],
                       regions = [[\<lparr> bargs = [temp64], bops = [4, 5] \<rparr>]] \<rparr>,
              4 \<mapsto> \<lparr> kind = OtherOp ''compute'', operands = [BlockArg (RegionOf 3 0) 0],
                       resultTypes = [ResultType F32], regions = [] \<rparr>,
              5 \<mapsto> \<lparr> kind = ReturnOp None, operands = [OpResult 4 0],
                       resultTypes = [], regions = [] \<rparr>,
              6 \<mapsto> \<lparr> kind = ApplyOp (Some [0, 0, 30]) (Some [64, 64, 60]),
                       operands = [BlockArg FuncBody 1],
                       resultTypes = [TempType F64 [64, 64, 30], TempType F32 [64, 64, 30]],
                       regions = [[\<lparr> bargs = [temp64], bops = [7, 8, 9] \<rparr>]] \<rparr>,
              7 \<mapsto> \<lparr> kind = StoreResultOp, operands = [],
                       resultTypes = [ResultType F64], regions = [] \<rparr>,
              8 \<mapsto> \<lparr> kind = StoreResultOp, operands = [],
                       resultTypes = [ResultType F32], regions = [] \<rparr>,
              9 \<mapsto> \<lparr> kind = ReturnOp None, operands = [OpResult 7 0, OpResult 8 0],
                       resultTypes = [], regions = [] \<rparr>,
              10 \<mapsto> \<lparr> kind = CombineOp 2 30 2 2 0 0 (Some [0, 0, 0]) (Some [64, 64, 60]),
                        operands = [OpResult 0 0, OpResult 3 0, OpResult 6 0, OpResult 6 1],
                        resultTypes = [temp64, TempType F32 [64, 64, 60]], regions = [] \<rparr>,
              11 \<mapsto> \<lparr> kind = OtherOp ''use'', operands = [OpResult 10 0, OpResult 10 1],
                        resultTypes = [], regions = [] \<rparr>],
       nextId = 12 \<rparr>"


text \<open>The example scenario with a second use of the result of \<open>A\<close> (by operation 9).\<close>

definition multiUseExample :: func where
  "multiUseExample =
     ifElseExample
       \<lparr> ops := (ops ifElseExample)
                   (9 \<mapsto> \<lparr> kind = OtherOp ''use'', operands = [OpResult 8 0, OpResult 0 0],
                            resultTypes = [], regions = [] \<rparr>) \<rparr>"







section \<open>Properties of the rewriter\<close>


subsection \<open>Projections of the graph primitives\<close>

lemma blockAt_FuncBody: "blockAt g FuncBody = Some (fblock g)"
  by (simp add: blockAt_def)

lemma nextId_mapBlockOps [simp]: "nextId (mapBlockOps f g) = nextId g"
  by (simp add: mapBlockOps_def)

lemma ops_mapBlockOps:
  "ops (mapBlockOps f g) x =
     map_option (\<lambda>oper. oper\<lparr>regions := map (map (\<lambda>blk. blk\<lparr>bops := f (bops blk)\<rparr>)) (regions oper)\<rparr>)
       (ops g x)"
  by (simp add: mapBlockOps_def)

lemma getKind_mapBlockOps [simp]: "getKind (mapBlockOps f g) x = getKind g x"
  by (simp add: getKind_def ops_mapBlockOps option.map_comp comp_def)

lemma getResultTypes_mapBlockOps [simp]: "getResultTypes (mapBlockOps f g) x = getResultTypes g x"
  by (simp add: getResultTypes_def ops_mapBlockOps split: option.splits)

lemma getOperands_mapBlockOps [simp]: "getOperands (mapBlockOps f g) x = getOperands g x"
  by (simp add: getOperands_def ops_mapBlockOps split: option.splits)

lemma blockAt_mapBlockOps:
  "blockAt (mapBlockOps f g) b = map_option (\<lambda>blk. blk\<lparr>bops := f (bops blk)\<rparr>) (blockAt g b)"
proof (cases b)
  case FuncBody
  then show ?thesis by (simp add: blockAt_def mapBlockOps_def)
next
  case (RegionOf p r)
  show ?thesis
  proof (cases "ops g p")
    case None
    with RegionOf show ?thesis by (simp add: blockAt_def ops_mapBlockOps)
  next
    case (Some oper)
    with RegionOf show ?thesis
      by (cases "regions oper ! r") (simp_all add: blockAt_def ops_mapBlockOps)
  qed
qed

lemma getArgTypes_mapBlockOps [simp]: "getArgTypes (mapBlockOps f g) b = getArgTypes g b"
  by (simp add: getArgTypes_def blockAt_mapBlockOps split: option.splits)

lemma getBlockOps_mapBlockOps:
  "f [] = [] \<Longrightarrow> getBlockOps (mapBlockOps f g) b = f (getBlockOps g b)"
  by (simp add: getBlockOps_def blockAt_mapBlockOps split: option.splits)

lemma insertBefore_Nil_iff [simp]: "insertBefore x n [] = []"
  by simp

lemma getBlockOps_insertBefore [simp]:
  "getBlockOps (mapBlockOps (insertBefore x n) g) b = insertBefore x n (getBlockOps g b)"
  by (simp add: getBlockOps_mapBlockOps)

lemma getBlockOps_removeAll [simp]:
  "getBlockOps (mapBlockOps (removeAll x) g) b = removeAll x (getBlockOps g b)"
  by (simp add: getBlockOps_mapBlockOps)

text \<open>updBlock and appendOps\<close>

lemma nextId_updBlock [simp]: "nextId (updBlock b f g) = nextId g"
  by (simp add: updBlock_def split: blockref.splits)

lemma getKind_updRegion [simp]: "kind (updRegion r f oper) = kind oper"
  by (simp add: updRegion_def)

lemma operands_updRegion [simp]: "operands (updRegion r f oper) = operands oper"
  by (simp add: updRegion_def)

lemma resultTypes_updRegion [simp]: "resultTypes (updRegion r f oper) = resultTypes oper"
  by (simp add: updRegion_def)

lemma getKind_updBlock [simp]: "getKind (updBlock b f g) x = getKind g x"
  by (cases b) (simp_all add: getKind_def updBlock_def option.map_comp comp_def)

lemma getResultTypes_updBlock [simp]: "getResultTypes (updBlock b f g) x = getResultTypes g x"
  by (cases b) (simp_all add: getResultTypes_def updBlock_def split: option.splits)

lemma getOperands_updBlock [simp]: "getOperands (updBlock b f g) x = getOperands g x"
  by (cases b) (simp_all add: getOperands_def updBlock_def split: option.splits)

lemma front_updRegion:
  "(if r < length (regions (updRegion r' (updFront f) oper))
    then (case regions (updRegion r' (updFront f) oper) ! r of [] \<Rightarrow> None | blk # rest \<Rightarrow> Some blk)
    else None)
   = (if r = r'
      then map_option f (if r < length (regions oper)
                         then (case regions oper ! r of [] \<Rightarrow> None | blk # rest \<Rightarrow> Some blk)
                         else None)
      else (if r < length (regions oper)
            then (case regions oper ! r of [] \<Rightarrow> None | blk # rest \<Rightarrow> Some blk)
            else None))"
  by (cases "regions oper ! r") (auto simp: updRegion_def nth_list_update)

lemma blockAt_updBlock:
  "blockAt (updBlock b' f g) b = (if b = b' then map_option f (blockAt g b) else blockAt g b)"
proof (cases b')
  case FuncBody
  then show ?thesis by (cases b) (simp_all add: blockAt_def updBlock_def)
next
  case b': (RegionOf p' r')
  show ?thesis
  proof (cases b)
    case FuncBody
    with b' show ?thesis by (simp add: blockAt_def updBlock_def)
  next
    case (RegionOf p r)
    show ?thesis
    proof (cases "ops g p")
      case None
      with b' RegionOf show ?thesis by (auto simp: blockAt_def updBlock_def)
    next
      case (Some oper)
      show ?thesis
      proof (cases "p = p'")
        case True
        with b' RegionOf Some front_updRegion [of r r' f oper] show ?thesis
          by (simp add: blockAt_def updBlock_def)
      next
        case False
        with b' RegionOf Some show ?thesis
          by (simp add: blockAt_def updBlock_def)
      qed
    qed
  qed
qed

lemma nextId_appendOps [simp]: "nextId (appendOps b xs g) = nextId g"
  by (simp add: appendOps_def)

lemma getKind_appendOps [simp]: "getKind (appendOps b xs g) x = getKind g x"
  by (simp add: appendOps_def)

lemma getResultTypes_appendOps [simp]: "getResultTypes (appendOps b xs g) x = getResultTypes g x"
  by (simp add: appendOps_def)

lemma getOperands_appendOps [simp]: "getOperands (appendOps b xs g) x = getOperands g x"
  by (simp add: appendOps_def)

lemma getArgTypes_appendOps [simp]: "getArgTypes (appendOps b' xs g) b = getArgTypes g b"
  by (simp add: getArgTypes_def appendOps_def blockAt_updBlock split: option.splits)


lemma blockAt_appendOps_None [simp]: "blockAt (appendOps b' xs g) b = None \<longleftrightarrow> blockAt g b = None"
  by (simp add: appendOps_def blockAt_updBlock)

lemma blockAt_mapBlockOps_None [simp]: "blockAt (mapBlockOps f g) b = None \<longleftrightarrow> blockAt g b = None"
  by (simp add: blockAt_mapBlockOps)


text \<open>replacing uses\<close>

lemma nextId_replaceAllUsesWith [simp]: "nextId (replaceAllUsesWith old new g) = nextId g"
  by (simp add: replaceAllUsesWith_def)

lemma blockAt_replaceAllUsesWith [simp]: "blockAt (replaceAllUsesWith old new g) b = blockAt g b"
  by (cases b) (simp_all add: blockAt_def replaceAllUsesWith_def split: option.splits)

lemma getKind_replaceAllUsesWith [simp]: "getKind (replaceAllUsesWith old new g) x = getKind g x"
  by (simp add: getKind_def replaceAllUsesWith_def option.map_comp comp_def)

lemma getResultTypes_replaceAllUsesWith [simp]:
  "getResultTypes (replaceAllUsesWith old new g) x = getResultTypes g x"
  by (simp add: getResultTypes_def replaceAllUsesWith_def split: option.splits)

lemma getOperands_replaceAllUsesWith [simp]:
  "getOperands (replaceAllUsesWith old new g) x = map (replaceUse old new) (getOperands g x)"
  by (simp add: getOperands_def replaceAllUsesWith_def split: option.splits)

lemma nextId_replaceAll [simp]: "nextId (replaceAll olds news g) = nextId g"
  by (induction olds news g rule: replaceAll.induct) simp_all

lemma blockAt_replaceAll [simp]: "blockAt (replaceAll olds news g) b = blockAt g b"
  by (induction olds news g rule: replaceAll.induct) simp_all

lemma getKind_replaceAll [simp]: "getKind (replaceAll olds news g) x = getKind g x"
  by (induction olds news g rule: replaceAll.induct) simp_all

lemma getResultTypes_replaceAll [simp]: "getResultTypes (replaceAll olds news g) x = getResultTypes g x"
  by (induction olds news g rule: replaceAll.induct) simp_all

lemma map_substSeq:
  "map (substSeq olds news) (map (replaceUse old new) vs) = map (substSeq (old # olds) (new # news)) vs"
  by simp

lemma getOperands_replaceAll [simp]:
  "getOperands (replaceAll olds news g) x = map (substSeq olds news) (getOperands g x)"
proof (induction olds arbitrary: news g)
  case Nil
  then show ?case by simp
next
  case (Cons old olds)
  show ?case
  proof (cases news)
    case Nil
    then show ?thesis by simp
  next
    case (Cons new news')
    with Cons.IH show ?thesis by (simp add: comp_def)
  qed
qed

lemma getArgTypes_replaceAll [simp]: "getArgTypes (replaceAll olds news g) b = getArgTypes g b"
  by (simp add: getArgTypes_def)

lemma getBlockOps_replaceAll [simp]: "getBlockOps (replaceAll olds news g) b = getBlockOps g b"
  by (simp add: getBlockOps_def)

text \<open>erasing\<close>

lemma nextId_eraseFromGraph [simp]: "nextId (eraseFromGraph y g) = nextId g"
  by (simp add: eraseFromGraph_def)

lemma getKind_eraseFromGraph [simp]:
  "getKind (eraseFromGraph y g) x = (if x = y then None else getKind g x)"
  using getKind_mapBlockOps [of "removeAll y" g x]
  by (simp add: getKind_def eraseFromGraph_def)

lemma getResultTypes_eraseFromGraph [simp]:
  "getResultTypes (eraseFromGraph y g) x = (if x = y then [] else getResultTypes g x)"
  using getResultTypes_mapBlockOps [of "removeAll y" g x]
  by (simp add: getResultTypes_def eraseFromGraph_def)

lemma getOperands_eraseFromGraph [simp]:
  "getOperands (eraseFromGraph y g) x = (if x = y then [] else getOperands g x)"
  using getOperands_mapBlockOps [of "removeAll y" g x]
  by (simp add: getOperands_def eraseFromGraph_def)

lemma blockAt_eraseFromGraph:
  "blockAt (eraseFromGraph y g) b =
     (case b of
        FuncBody \<Rightarrow> map_option (\<lambda>blk. blk\<lparr>bops := removeAll y (bops blk)\<rparr>) (blockAt g b)
      | RegionOf p r \<Rightarrow>
          if p = y then None
          else map_option (\<lambda>blk. blk\<lparr>bops := removeAll y (bops blk)\<rparr>) (blockAt g b))"
proof (cases b)
  case FuncBody
  then show ?thesis by (simp add: blockAt_def eraseFromGraph_def mapBlockOps_def)
next
  case (RegionOf p r)
  with blockAt_mapBlockOps [of "removeAll y" g b] show ?thesis
    by (simp add: blockAt_def eraseFromGraph_def)
qed



text \<open>merging blocks\<close>

lemma nextId_dropFrontBlock [simp]: "nextId (dropFrontBlock b g) = nextId g"
  by (cases b) (simp_all add: dropFrontBlock_def)

lemma getKind_dropFrontBlock [simp]: "getKind (dropFrontBlock b g) x = getKind g x"
  by (cases b) (simp_all add: getKind_def dropFrontBlock_def option.map_comp comp_def)

lemma getResultTypes_dropFrontBlock [simp]: "getResultTypes (dropFrontBlock b g) x = getResultTypes g x"
  by (cases b) (simp_all add: getResultTypes_def dropFrontBlock_def split: option.splits)

lemma getOperands_dropFrontBlock [simp]: "getOperands (dropFrontBlock b g) x = getOperands g x"
  by (cases b) (simp_all add: getOperands_def dropFrontBlock_def split: option.splits)


lemma nextId_mergeBlocksIn [simp]: "nextId (mergeBlocksIn s d vs g) = nextId g"
  by (simp add: mergeBlocksIn_def)

lemma getKind_mergeBlocksIn [simp]: "getKind (mergeBlocksIn s d vs g) x = getKind g x"
  by (simp add: mergeBlocksIn_def)

lemma getResultTypes_mergeBlocksIn [simp]: "getResultTypes (mergeBlocksIn s d vs g) x = getResultTypes g x"
  by (simp add: mergeBlocksIn_def)

lemma getOperands_mergeBlocksIn [simp]:
  "getOperands (mergeBlocksIn s d vs g) x = map (substSeq (getArguments g s) vs) (getOperands g x)"
  by (simp add: mergeBlocksIn_def)






text \<open>creating\<close>

lemma nextId_insertOp [simp]: "nextId (insertOp pt n g) = nextId g"
  by (cases pt) (simp_all add: insertOp_def)

lemma getKind_insertOp [simp]: "getKind (insertOp pt n g) x = getKind g x"
  by (cases pt) (simp_all add: insertOp_def)

lemma getResultTypes_insertOp [simp]: "getResultTypes (insertOp pt n g) x = getResultTypes g x"
  by (cases pt) (simp_all add: insertOp_def)

lemma getOperands_insertOp [simp]: "getOperands (insertOp pt n g) x = getOperands g x"
  by (cases pt) (simp_all add: insertOp_def)




lemma nextId_createIn [simp]: "nextId (createIn pt oper g) = Suc (nextId g)"
  by (simp add: createIn_def)

lemma getKind_createIn [simp]:
  "getKind (createIn pt oper g) x = (if x = nextId g then Some (kind oper) else getKind g x)"
  using getKind_insertOp [of pt "nextId g" g x]
  by (simp add: createIn_def getKind_def)

lemma getResultTypes_createIn [simp]:
  "getResultTypes (createIn pt oper g) x
     = (if x = nextId g then resultTypes oper else getResultTypes g x)"
  using getResultTypes_insertOp [of pt "nextId g" g x]
  by (simp add: createIn_def getResultTypes_def)

lemma getOperands_createIn [simp]:
  "getOperands (createIn pt oper g) x = (if x = nextId g then operands oper else getOperands g x)"
  using getOperands_insertOp [of pt "nextId g" g x]
  by (simp add: createIn_def getOperands_def)









lemma graph_setInsertionPoint [simp]: "graph (setInsertionPoint x rw) = graph rw"
  and ip_setInsertionPoint [simp]: "ip (setInsertionPoint x rw) = Before x"
  and diags_setInsertionPoint [simp]: "diags (setInsertionPoint x rw) = diags rw"
  by (simp_all add: setInsertionPoint_def)


lemma graph_setInsertionPointToStart [simp]: "graph (setInsertionPointToStart b rw) = graph rw"
  and diags_setInsertionPointToStart [simp]: "diags (setInsertionPointToStart b rw) = diags rw"
  by (simp_all add: setInsertionPointToStart_def split: option.splits list.splits)





lemma graph_emitWarning [simp]: "graph (emitWarning x msg rw) = graph rw"
  and ip_emitWarning [simp]: "ip (emitWarning x msg rw) = ip rw"
  and diags_emitWarning [simp]: "diags (emitWarning x msg rw) = diags rw @ [Warning x msg]"
  by (simp_all add: emitWarning_def)

text \<open>replaceOpIn\<close>

lemma nextId_replaceOpIn [simp]: "nextId (replaceOpIn x vs g) = nextId g"
  by (simp add: replaceOpIn_def)

lemma getKind_replaceOpIn [simp]:
  "getKind (replaceOpIn x vs g) y = (if y = x then None else getKind g y)"
  by (simp add: replaceOpIn_def)

lemma getResultTypes_replaceOpIn [simp]:
  "getResultTypes (replaceOpIn x vs g) y = (if y = x then [] else getResultTypes g y)"
  by (simp add: replaceOpIn_def)

lemma getOperands_replaceOpIn [simp]:
  "getOperands (replaceOpIn x vs g) y =
     (if y = x then [] else map (substSeq (getResults g x) vs) (getOperands g y))"
  by (simp add: replaceOpIn_def)




lemma getOperands_Some: "ops g x = Some oper \<Longrightarrow> getOperands g x = operands oper"
  by (simp add: getOperands_def)







section \<open>The verifiers\<close>

lemma foldl_unroll_word:
  "foldl (\<lambda>acc x. (word_of_int (sint acc * x) :: 32 word)) a u = a * word_of_int (prod_list u)"
  by (induction u arbitrary: a) (simp_all add: mult.assoc)

lemma getUnrollFac_product:
  "getUnrollFac unroll = (case unroll of None \<Rightarrow> 1 | Some u \<Rightarrow> nat (prod_list u mod 2 ^ 32))"
proof (cases unroll)
  case None
  then show ?thesis by (simp add: getUnrollFac_def)
next
  case (Some u)
  have "unat (word_of_int (prod_list u) :: 32 word) = nat (prod_list u mod 2 ^ 32)"
    by (simp only: unat_eq_nat_uint uint_word_of_int) simp
  then show ?thesis unfolding getUnrollFac_def Some option.case foldl_unroll_word by simp
qed

lemma verifyElementTypes_ok:
  "verifyElementTypes g opnds uf i ts = Inr () \<Longrightarrow> k < length ts \<Longrightarrow> j < uf \<Longrightarrow>
     gridElementType (ts ! k) \<noteq> None \<and>
     getResultType (typeOf g (opnds ! ((i + k) * uf + j))) = gridElementType (ts ! k)"
proof (induction ts arbitrary: i k)
  case Nil
  then show ?case by simp
next
  case (Cons t ts)
  from Cons.prems(1) obtain e where e: "gridElementType t = Some e"
    by (cases "gridElementType t") simp_all
  from Cons.prems(1) e have
    all: "list_all (\<lambda>j. getResultType (typeOf g (opnds ! (i * uf + j))) = Some e) [0..<uf]"
    and rest: "verifyElementTypes g opnds uf (Suc i) ts = Inr ()"
    by (simp_all split: if_splits)
  show ?case
  proof (cases k)
    case 0
    with e all Cons.prems(3) show ?thesis by (simp add: list_all_iff)
  next
    case (Suc k')
    with Cons.prems(2) have "k' < length ts" by simp
    from Cons.IH [OF rest this Cons.prems(3)] Suc show ?thesis by simp
  qed
qed

text \<open>
  C8, as the claim states it, fails: the unroll factor the verifier uses is not the
  product of the entries of the unroll attribute but that product in 32-bit
  arithmetic. With the unroll attribute \<open>[4294967297, 1, 1]\<close> the return op of an
  apply op with one result verifies with one operand, where the claim asks for
  4294967297 operands.
\<close>

theorem return_verifier_product_counterexample:
  "verifyReturn (storeExample (Some [4294967297, 1, 1]) [OpResult 2 0]) 3 = Inr () \<and>
   getParentOp (storeExample (Some [4294967297, 1, 1]) [OpResult 2 0]) 3 = Some 1 \<and>
   int (length (getOperands (storeExample (Some [4294967297, 1, 1]) [OpResult 2 0]) 3))
     \<noteq> int (length (getResultTypes (storeExample (Some [4294967297, 1, 1]) [OpResult 2 0]) 1))
         * prod_list [4294967297, 1, 1]"
proof -
  have "verifyReturn (storeExample (Some [4294967297, 1, 1]) [OpResult 2 0]) 3 = Inr ()"
    by code_simp
  moreover
  have "getParentOp (storeExample (Some [4294967297, 1, 1]) [OpResult 2 0]) 3 = Some 1"
    by code_simp
  moreover
  have "int (length (getOperands (storeExample (Some [4294967297, 1, 1]) [OpResult 2 0]) 3))
     \<noteq> int (length (getResultTypes (storeExample (Some [4294967297, 1, 1]) [OpResult 2 0]) 1))
         * prod_list [4294967297, 1, 1]"
    by code_simp
  ultimately show ?thesis by (intro conjI)
qed

text \<open>
  C8 (amended): the return op verifier succeeds only if the op lies in an apply op, its
  operand count equals the result count of that apply op times the unroll factor, where
  the unroll factor is 1 without an unroll attribute and otherwise the product of its
  entries reduced modulo \<open>2 ^ 32\<close>, and only if for every apply result \<open>i\<close> and every
  \<open>j\<close> below the unroll factor the result type wrapped by operand \<open>i * unrollFactor + j\<close>
  is the element type of the \<open>i\<close>-th apply result.
\<close>

theorem return_verifier_conditions:
  assumes "verifyReturn g r = Inr ()"
  shows "\<exists>ret unroll a applyOp.
           ops g r = Some ret \<and> kind ret = ReturnOp unroll \<and>
           getParentOp g r = Some a \<and> ops g a = Some applyOp \<and> isApplyOp (kind applyOp) \<and>
           getUnrollFac unroll
             = (case unroll of None \<Rightarrow> 1 | Some u \<Rightarrow> nat (prod_list u mod 2 ^ 32)) \<and>
           length (operands ret) = length (resultTypes applyOp) * getUnrollFac unroll \<and>
           (\<forall>i < length (resultTypes applyOp). \<forall>j < getUnrollFac unroll.
              gridElementType (resultTypes applyOp ! i) \<noteq> None \<and>
              getResultType (typeOf g (operands ret ! (i * getUnrollFac unroll + j)))
                = gridElementType (resultTypes applyOp ! i))"
proof -
  from assms obtain ret where ret: "ops g r = Some ret"
    by (cases "ops g r") (simp_all add: verifyReturn_def)
  from assms ret obtain unroll where unroll: "kind ret = ReturnOp unroll"
    by (cases "kind ret") (simp_all add: verifyReturn_def)
  from assms ret unroll obtain a where a: "getParentOp g r = Some a"
    by (cases "getParentOp g r") (simp_all add: verifyReturn_def)
  from assms ret unroll a obtain applyOp where app: "ops g a = Some applyOp"
    by (cases "ops g a") (simp_all add: verifyReturn_def)
  from assms ret unroll a app have
    isap: "isApplyOp (kind applyOp)" and
    cnt: "length (operands ret) = getUnrollFac unroll * length (resultTypes applyOp)" and
    els: "verifyElementTypes g (operands ret) (getUnrollFac unroll) 0 (resultTypes applyOp) = Inr ()"
    by (simp_all add: verifyReturn_def split: if_splits)
  from verifyElementTypes_ok [OF els]
  have "\<forall>i < length (resultTypes applyOp). \<forall>j < getUnrollFac unroll.
              gridElementType (resultTypes applyOp ! i) \<noteq> None \<and>
              getResultType (typeOf g (operands ret ! (i * getUnrollFac unroll + j)))
                = gridElementType (resultTypes applyOp ! i)"
    by simp
  moreover note getUnrollFac_product [of unroll]
  moreover from cnt
  have "length (operands ret) = length (resultTypes applyOp) * getUnrollFac unroll"
    by (simp only: mult.commute)
  ultimately show ?thesis using ret unroll a app isap
    by blast
qed

theorem return_verifier_conditions_witness:
  "verifyReturn (storeExample (Some [1, 2, 1]) [OpResult 2 0, OpResult 2 0]) 3 = Inr () \<and>
   (\<exists>ret unroll a applyOp.
      ops (storeExample (Some [1, 2, 1]) [OpResult 2 0, OpResult 2 0]) 3 = Some ret \<and>
      kind ret = ReturnOp unroll \<and>
      getParentOp (storeExample (Some [1, 2, 1]) [OpResult 2 0, OpResult 2 0]) 3 = Some a \<and>
      ops (storeExample (Some [1, 2, 1]) [OpResult 2 0, OpResult 2 0]) a = Some applyOp \<and>
      isApplyOp (kind applyOp) \<and>
      getUnrollFac unroll
        = (case unroll of None \<Rightarrow> 1 | Some u \<Rightarrow> nat (prod_list u mod 2 ^ 32)) \<and>
      length (operands ret) = length (resultTypes applyOp) * getUnrollFac unroll \<and>
      (\<forall>i < length (resultTypes applyOp). \<forall>j < getUnrollFac unroll.
         gridElementType (resultTypes applyOp ! i) \<noteq> None \<and>
         getResultType (typeOf (storeExample (Some [1, 2, 1]) [OpResult 2 0, OpResult 2 0])
                          (operands ret ! (i * getUnrollFac unroll + j)))
           = gridElementType (resultTypes applyOp ! i)))"
proof -
  have h: "verifyReturn (storeExample (Some [1, 2, 1]) [OpResult 2 0, OpResult 2 0]) 3 = Inr ()"
    by code_simp
  show ?thesis
    by (rule conjI [OF h return_verifier_conditions [OF h]])
qed

text \<open>
  C9: the store op verifier succeeds only if the defining op of the stored temp is an
  apply or a combine op, no user of the target field is a load op, exactly one use of
  the target field is by a store op, and the defining op of the field is a cast op. When
  one of the four fails for a temp and a field that are results of operations, the
  verifier reports an op error. When the stored temp is a block argument and the checks
  of the types and of the shape pass, the verifier does not report an op error: it stops
  on the assertion of \<^verbatim>\<open>dyn_cast\<close> on the null defining op; and so it does on the
  \<^verbatim>\<open>isa\<close> of the null defining op of a field that is a block argument, when all the
  checks before it pass.
\<close>

theorem store_verifier_conditions:
  "(verifyStore S T g oper = Inr () \<longrightarrow>
      (\<exists>temp field. operands oper = [temp, field] \<and>
         (isa_and_nonnull g isApplyOp (getDefiningOp temp) \<or>
          isa_and_nonnull g isCombineOp (getDefiningOp temp)) \<and>
         filter (\<lambda>p. isa_and_nonnull g isLoadOp (Some p)) (getUsers g field) = [] \<and>
         length (filter (\<lambda>p. isa_and_nonnull g isStoreOp (Some p)) (getUsers g field)) = 1 \<and>
         isa_and_nonnull g isCastOp (getDefiningOp field))) \<and>
   (operands oper = [temp, field] \<and> getDefiningOp temp \<noteq> None \<and> getDefiningOp field \<noteq> None \<and>
      \<not> ((isa_and_nonnull g isApplyOp (getDefiningOp temp) \<or>
          isa_and_nonnull g isCombineOp (getDefiningOp temp)) \<and>
         filter (\<lambda>p. isa_and_nonnull g isLoadOp (Some p)) (getUsers g field) = [] \<and>
         length (filter (\<lambda>p. isa_and_nonnull g isStoreOp (Some p)) (getUsers g field)) = 1 \<and>
         isa_and_nonnull g isCastOp (getDefiningOp field)) \<longrightarrow>
      (\<exists>msg. verifyStore S T g oper = Inl (OpError msg))) \<and>
   (operands oper = [temp, field] \<and>
      isTempType (typeOf g temp) \<and> isFieldType (typeOf g field) \<and>
      \<not> hasDynamicShape T (typeOf g field) \<and>
      getRank T (typeOf g field) = getRank T (typeOf g temp) \<and>
      getAllocation T (typeOf g field) = getAllocation T (typeOf g temp) \<and>
      gridElementType (typeOf g field) = gridElementType (typeOf g temp) \<and>
      hasLargerOrEqualShape T (typeOf g field) (getLB S (kind oper)) (getUB S (kind oper)) \<and>
      hasLargerOrEqualShape T (typeOf g temp) (getLB S (kind oper)) (getUB S (kind oper)) \<and>
      (getDefiningOp temp = None \<or>
       (isa_and_nonnull g isApplyOp (getDefiningOp temp) \<or>
        isa_and_nonnull g isCombineOp (getDefiningOp temp)) \<and>
       filter (\<lambda>p. isa_and_nonnull g isLoadOp (Some p)) (getUsers g field) = [] \<and>
       length (filter (\<lambda>p. isa_and_nonnull g isStoreOp (Some p)) (getUsers g field)) = 1 \<and>
       getDefiningOp field = None) \<longrightarrow>
      verifyStore S T g oper = Inl (AssertionFailed ''isa<> used on a null pointer''))"
proof (intro conjI impI)
  assume ok: "verifyStore S T g oper = Inr ()"
  then obtain t f where o: "operands oper = [t, f]"
    by (cases "operands oper" rule: list.exhaust [case_names Nil Cons])
       (auto simp: verifyStore_def split: list.splits)
  from ok have
    "(isa_and_nonnull g isApplyOp (getDefiningOp t) \<or> isa_and_nonnull g isCombineOp (getDefiningOp t)) \<and>
         filter (\<lambda>p. isa_and_nonnull g isLoadOp (Some p)) (getUsers g f) = [] \<and>
         length (filter (\<lambda>p. isa_and_nonnull g isStoreOp (Some p)) (getUsers g f)) = 1 \<and>
         isa_and_nonnull g isCastOp (getDefiningOp f)"
    unfolding verifyStore_def o list.case Let_def isa_def isa_and_nonnull_def
    by (simp split: if_splits option.splits sum.splits)
  with o show "\<exists>temp field. operands oper = [temp, field] \<and>
         (isa_and_nonnull g isApplyOp (getDefiningOp temp) \<or>
          isa_and_nonnull g isCombineOp (getDefiningOp temp)) \<and>
         filter (\<lambda>p. isa_and_nonnull g isLoadOp (Some p)) (getUsers g field) = [] \<and>
         length (filter (\<lambda>p. isa_and_nonnull g isStoreOp (Some p)) (getUsers g field)) = 1 \<and>
         isa_and_nonnull g isCastOp (getDefiningOp field)"
    by blast
next
  assume a: "operands oper = [temp, field] \<and> getDefiningOp temp \<noteq> None \<and> getDefiningOp field \<noteq> None \<and>
      \<not> ((isa_and_nonnull g isApplyOp (getDefiningOp temp) \<or>
          isa_and_nonnull g isCombineOp (getDefiningOp temp)) \<and>
         filter (\<lambda>p. isa_and_nonnull g isLoadOp (Some p)) (getUsers g field) = [] \<and>
         length (filter (\<lambda>p. isa_and_nonnull g isStoreOp (Some p)) (getUsers g field)) = 1 \<and>
         isa_and_nonnull g isCastOp (getDefiningOp field))"
  then have o: "operands oper = [temp, field]" by simp
  from a obtain p q where d: "getDefiningOp temp = Some p" "getDefiningOp field = Some q"
    by auto
  from a show "\<exists>msg. verifyStore S T g oper = Inl (OpError msg)"
    unfolding verifyStore_def o list.case Let_def isa_def isa_and_nonnull_def d option.case sum.case
    by (simp split: if_splits) blast
next
  assume a: "operands oper = [temp, field] \<and>
      isTempType (typeOf g temp) \<and> isFieldType (typeOf g field) \<and>
      \<not> hasDynamicShape T (typeOf g field) \<and>
      getRank T (typeOf g field) = getRank T (typeOf g temp) \<and>
      getAllocation T (typeOf g field) = getAllocation T (typeOf g temp) \<and>
      gridElementType (typeOf g field) = gridElementType (typeOf g temp) \<and>
      hasLargerOrEqualShape T (typeOf g field) (getLB S (kind oper)) (getUB S (kind oper)) \<and>
      hasLargerOrEqualShape T (typeOf g temp) (getLB S (kind oper)) (getUB S (kind oper)) \<and>
      (getDefiningOp temp = None \<or>
       (isa_and_nonnull g isApplyOp (getDefiningOp temp) \<or>
        isa_and_nonnull g isCombineOp (getDefiningOp temp)) \<and>
       filter (\<lambda>p. isa_and_nonnull g isLoadOp (Some p)) (getUsers g field) = [] \<and>
       length (filter (\<lambda>p. isa_and_nonnull g isStoreOp (Some p)) (getUsers g field)) = 1 \<and>
       getDefiningOp field = None)"
  then have o: "operands oper = [temp, field]" by simp
  from a consider (temp) "getDefiningOp temp = None"
    | (field) p where "getDefiningOp temp = Some p"
        "isaOp g isApplyOp p \<or> isaOp g isCombineOp p"
        "filter (\<lambda>p. isa_and_nonnull g isLoadOp (Some p)) (getUsers g field) = []"
        "length (filter (\<lambda>p. isa_and_nonnull g isStoreOp (Some p)) (getUsers g field)) = 1"
        "getDefiningOp field = None"
    by (cases "getDefiningOp temp") (auto simp: isa_and_nonnull_def)
  then show "verifyStore S T g oper = Inl (AssertionFailed ''isa<> used on a null pointer'')"
  proof cases
    case temp
    with a show ?thesis
      unfolding verifyStore_def o list.case Let_def isa_def
      by simp
  next
    case field
    with a show ?thesis
      unfolding verifyStore_def o list.case Let_def isa_def
      by auto
  qed
qed

text \<open>
  The store of the example verifies; with a load of the output field added the verifier
  reports an op error; and the store of a temporary that is an argument of the function
  stops the verifier on the assertion.
\<close>

theorem store_verifier_conditions_witness:
  "verifyStore stdShapeOp stdGridType (storeExample None [OpResult 2 0]) storeOpExample = Inr () \<and>
   (\<exists>temp field. operands storeOpExample = [temp, field] \<and>
      (isa_and_nonnull (storeExample None [OpResult 2 0]) isApplyOp (getDefiningOp temp) \<or>
       isa_and_nonnull (storeExample None [OpResult 2 0]) isCombineOp (getDefiningOp temp)) \<and>
      filter (\<lambda>p. isa_and_nonnull (storeExample None [OpResult 2 0]) isLoadOp (Some p))
        (getUsers (storeExample None [OpResult 2 0]) field) = [] \<and>
      length (filter (\<lambda>p. isa_and_nonnull (storeExample None [OpResult 2 0]) isStoreOp (Some p))
                (getUsers (storeExample None [OpResult 2 0]) field)) = 1 \<and>
      isa_and_nonnull (storeExample None [OpResult 2 0]) isCastOp (getDefiningOp field)) \<and>
   (\<exists>msg. verifyStore stdShapeOp stdGridType storeLoadExample storeOpExample = Inl (OpError msg)) \<and>
   getDefiningOp (BlockArg FuncBody 1) = None \<and>
   verifyStore stdShapeOp stdGridType storeArgExample storeArgOpExample
     = Inl (AssertionFailed ''isa<> used on a null pointer'')"
proof -
  have ok: "verifyStore stdShapeOp stdGridType (storeExample None [OpResult 2 0]) storeOpExample
              = Inr ()"
    by code_simp
  have opnds: "operands storeOpExample = [OpResult 1 0, OpResult 0 0]"
    by (simp add: storeOpExample_def)
  have loaded: "filter (\<lambda>p. isa_and_nonnull storeLoadExample isLoadOp (Some p))
                  (getUsers storeLoadExample (OpResult 0 0)) \<noteq> []"
    by code_simp
  from store_verifier_conditions
         [of stdShapeOp stdGridType "storeExample None [OpResult 2 0]" storeOpExample] ok
  have first: "\<exists>temp field. operands storeOpExample = [temp, field] \<and>
      (isa_and_nonnull (storeExample None [OpResult 2 0]) isApplyOp (getDefiningOp temp) \<or>
       isa_and_nonnull (storeExample None [OpResult 2 0]) isCombineOp (getDefiningOp temp)) \<and>
      filter (\<lambda>p. isa_and_nonnull (storeExample None [OpResult 2 0]) isLoadOp (Some p))
        (getUsers (storeExample None [OpResult 2 0]) field) = [] \<and>
      length (filter (\<lambda>p. isa_and_nonnull (storeExample None [OpResult 2 0]) isStoreOp (Some p))
                (getUsers (storeExample None [OpResult 2 0]) field)) = 1 \<and>
      isa_and_nonnull (storeExample None [OpResult 2 0]) isCastOp (getDefiningOp field)"
    by blast
  from store_verifier_conditions
         [of stdShapeOp stdGridType storeLoadExample storeOpExample "OpResult 1 0" "OpResult 0 0"]
       opnds loaded
  have second: "\<exists>msg. verifyStore stdShapeOp stdGridType storeLoadExample storeOpExample
                  = Inl (OpError msg)"
    by simp
  have aopnds: "operands storeArgOpExample = [BlockArg FuncBody 1, OpResult 0 0]"
    by (simp add: storeArgOpExample_def storeOpExample_def)
  have h1: "isTempType (typeOf storeArgExample (BlockArg FuncBody 1))"
    by code_simp
  have h2: "isFieldType (typeOf storeArgExample (OpResult 0 0))"
    by code_simp
  have h3: "\<not> hasDynamicShape stdGridType (typeOf storeArgExample (OpResult 0 0))"
    by code_simp
  have h4: "getRank stdGridType (typeOf storeArgExample (OpResult 0 0))
              = getRank stdGridType (typeOf storeArgExample (BlockArg FuncBody 1))"
    by code_simp
  have h5: "getAllocation stdGridType (typeOf storeArgExample (OpResult 0 0))
              = getAllocation stdGridType (typeOf storeArgExample (BlockArg FuncBody 1))"
    by simp
  have h6: "gridElementType (typeOf storeArgExample (OpResult 0 0))
              = gridElementType (typeOf storeArgExample (BlockArg FuncBody 1))"
    by code_simp
  have h7: "hasLargerOrEqualShape stdGridType (typeOf storeArgExample (OpResult 0 0))
              (getLB stdShapeOp (kind storeArgOpExample)) (getUB stdShapeOp (kind storeArgOpExample))"
    by code_simp
  have h8: "hasLargerOrEqualShape stdGridType (typeOf storeArgExample (BlockArg FuncBody 1))
              (getLB stdShapeOp (kind storeArgOpExample)) (getUB stdShapeOp (kind storeArgOpExample))"
    by code_simp
  have null: "getDefiningOp (BlockArg FuncBody 1) = None"
    by simp
  from store_verifier_conditions
         [of stdShapeOp stdGridType storeArgExample storeArgOpExample "BlockArg FuncBody 1" "OpResult 0 0"]
       aopnds h1 h2 h3 h4 h5 h6 h7 h8 null
  have third: "verifyStore stdShapeOp stdGridType storeArgExample storeArgOpExample
                 = Inl (AssertionFailed ''isa<> used on a null pointer'')"
    by blast
  from ok first second null third show ?thesis by (intro conjI)
qed

section \<open>The checks of the fuse rewrite and of the pass\<close>

lemma emitWarning_neq:
  "m1 \<noteq> m2 \<Longrightarrow> emitWarning x m1 rw \<noteq> emitWarning x m2 rw"
proof
  assume "m1 \<noteq> m2" and "emitWarning x m1 rw = emitWarning x m2 rw"
  then have "diags (emitWarning x m1 rw) = diags (emitWarning x m2 rw)" by simp
  with \<open>m1 \<noteq> m2\<close> show False by simp
qed

text \<open>
  C10: when the fuse rewrite considers two apply ops that both have a shape, it fails
  with the warning \<open>expected shapes to match\<close> exactly when the two lower bounds differ
  and the two upper bounds differ; when the lower bounds agree or the upper bounds
  agree, it goes past the shape check without that warning.
\<close>

theorem fuse_shape_warning_iff:
  assumes "ops (graph rw) applyOp1 = Some op1" and "ops (graph rw) applyOp2 = Some op2"
    and "isApplyOp (kind op1)" and "isApplyOp (kind op2)"
    and "hasShape S (kind op1)" and "hasShape S (kind op2)"
  shows "fuseApplyOps S applyOp1 applyOp2 combineOp rw
           = Inr (failure, emitWarning combineOp ''expected shapes to match'' rw)
         \<longleftrightarrow> getLB S (kind op1) \<noteq> getLB S (kind op2) \<and> getUB S (kind op1) \<noteq> getUB S (kind op2)"
proof
  assume "getLB S (kind op1) \<noteq> getLB S (kind op2) \<and> getUB S (kind op1) \<noteq> getUB S (kind op2)"
  with assms show "fuseApplyOps S applyOp1 applyOp2 combineOp rw
           = Inr (failure, emitWarning combineOp ''expected shapes to match'' rw)"
    by (simp add: fuseApplyOps_def)
next
  assume r: "fuseApplyOps S applyOp1 applyOp2 combineOp rw
           = Inr (failure, emitWarning combineOp ''expected shapes to match'' rw)"
  show "getLB S (kind op1) \<noteq> getLB S (kind op2) \<and> getUB S (kind op1) \<noteq> getUB S (kind op2)"
  proof (rule ccontr)
    assume n: "\<not> (getLB S (kind op1) \<noteq> getLB S (kind op2) \<and> getUB S (kind op1) \<noteq> getUB S (kind op2))"
    have ne: "emitWarning combineOp ''expected matching unroll configurations'' rw
                \<noteq> emitWarning combineOp ''expected shapes to match'' rw"
      by (rule emitWarning_neq) simp
    from r n assms ne show False
      unfolding fuseApplyOps_def
      by (simp split: sum.splits bool.splits)
  qed
qed

text \<open>
  At two apply ops with bounds \<open>[0,0,0]:[64,64,30]\<close> and \<open>[0,0,1]:[64,64,20]\<close> the fuse
  fails with the warning; with \<open>[0,0,0]:[64,64,30]\<close> and \<open>[0,0,0]:[64,64,20]\<close> (equal
  lower bounds, different upper bounds) it does not, and the fuse succeeds.
\<close>

theorem fuse_shape_warning_iff_witness:
  "fuseApplyOps stdShapeOp 0 3 10 (rewriterAt 10 (fuseExample [0, 0, 0] [64, 64, 30] [0, 0, 1] [64, 64, 20]))
     = Inr (failure, emitWarning 10 ''expected shapes to match''
              (rewriterAt 10 (fuseExample [0, 0, 0] [64, 64, 30] [0, 0, 1] [64, 64, 20]))) \<and>
   fuseApplyOps stdShapeOp 0 3 10 (rewriterAt 10 (fuseExample [0, 0, 0] [64, 64, 30] [0, 0, 0] [64, 64, 20]))
     \<noteq> Inr (failure, emitWarning 10 ''expected shapes to match''
              (rewriterAt 10 (fuseExample [0, 0, 0] [64, 64, 30] [0, 0, 0] [64, 64, 20]))) \<and>
   map_sum id fst
     (fuseApplyOps stdShapeOp 0 3 10
        (rewriterAt 10 (fuseExample [0, 0, 0] [64, 64, 30] [0, 0, 0] [64, 64, 20])))
     = Inr success"
proof -
  have a: "ops (graph (rewriterAt 10 (fuseExample lb1 ub1 lb2 ub2))) 0
             = Some \<lparr> kind = ApplyOp (Some lb1) (Some ub1), operands = [BlockArg FuncBody 0],
                      resultTypes = [TempType F64 [64, 64, 30]],
                      regions = [[\<lparr> bargs = [temp64], bops = [1, 2] \<rparr>]] \<rparr>"
    for lb1 ub1 lb2 ub2
    by (simp add: rewriterAt_def fuseExample_def)
  have b: "ops (graph (rewriterAt 10 (fuseExample lb1 ub1 lb2 ub2))) 3
             = Some \<lparr> kind = ApplyOp (Some lb2) (Some ub2), operands = [BlockArg FuncBody 1],
                      resultTypes = [TempType F32 [64, 64, 30]],
                      regions = [[\<lparr> bargs = [temp64], bops = [4, 5] \<rparr>]] \<rparr>"
    for lb1 ub1 lb2 ub2
    by (simp add: rewriterAt_def fuseExample_def)
  have first: "fuseApplyOps stdShapeOp 0 3 10
                 (rewriterAt 10 (fuseExample [0, 0, 0] [64, 64, 30] [0, 0, 1] [64, 64, 20]))
     = Inr (failure, emitWarning 10 ''expected shapes to match''
              (rewriterAt 10 (fuseExample [0, 0, 0] [64, 64, 30] [0, 0, 1] [64, 64, 20])))"
    using fuse_shape_warning_iff
            [OF a [of "[0, 0, 0]" "[64, 64, 30]" "[0, 0, 1]" "[64, 64, 20]"]
                b [of "[0, 0, 0]" "[64, 64, 30]" "[0, 0, 1]" "[64, 64, 20]"],
             where S = stdShapeOp and combineOp = 10]
    by (simp add: stdShapeOp_def)
  have second: "fuseApplyOps stdShapeOp 0 3 10
                  (rewriterAt 10 (fuseExample [0, 0, 0] [64, 64, 30] [0, 0, 0] [64, 64, 20]))
     \<noteq> Inr (failure, emitWarning 10 ''expected shapes to match''
              (rewriterAt 10 (fuseExample [0, 0, 0] [64, 64, 30] [0, 0, 0] [64, 64, 20])))"
    using fuse_shape_warning_iff
            [OF a [of "[0, 0, 0]" "[64, 64, 30]" "[0, 0, 0]" "[64, 64, 20]"]
                b [of "[0, 0, 0]" "[64, 64, 30]" "[0, 0, 0]" "[64, 64, 20]"],
             where S = stdShapeOp and combineOp = 10]
    by (simp add: stdShapeOp_def)
  have third: "map_sum id fst
     (fuseApplyOps stdShapeOp 0 3 10
        (rewriterAt 10 (fuseExample [0, 0, 0] [64, 64, 30] [0, 0, 0] [64, 64, 20])))
     = Inr success"
    by code_simp
  from first second third show ?thesis by (intro conjI)
qed

text \<open>When the fuse rewrite fails, on either check, it has left the graph as it was.\<close>

lemma fuseApplyOps_failure_graph:
  "fuseApplyOps S applyOp1 applyOp2 combineOp rw = Inr (failure, rw') \<Longrightarrow> graph rw' = graph rw"
  unfolding fuseApplyOps_def
  by (auto split: option.splits if_splits sum.splits bool.splits)

text \<open>
  C4: when the function is tagged as a stencil program and holds a combine op one of
  whose operands has more than one use, the pass emits the error on the function, signals
  failure and leaves the graph as it is: the pattern driver is not run.
\<close>

theorem pass_aborts_on_multiple_uses:
  assumes "isStencilProgram (graph rw)"
    and "ops (graph rw) combineOp = Some c" and "isCombineOp (kind c)"
    and "combineOp < nextId (graph rw)"
    and "operand \<in> set (operands c)" and "1 < length (getUsers (graph rw) operand)"
  shows "runOnFunction S root driver internalOnly rw
           = \<lparr> final = rw\<lparr>diags := diags rw
                          @ [FuncOpError ''execute domain splitting before combine op conversion'']\<rparr>,
               passFailed = True \<rparr>"
proof -
  from assms(6) have "\<not> hasOneUse (graph rw) operand"
    by (simp add: hasOneUse_def)
  with assms(5) have "list_ex (\<lambda>operand. \<not> hasOneUse (graph rw) operand) (operands c)"
    unfolding list_ex_iff by (rule bexI [rotated])
  with assms(2,3,4) have "hasOperandsWithMultipleUses (graph rw)"
    unfolding hasOperandsWithMultipleUses_def list_ex_iff
    by (intro bexI [of _ combineOp]) simp_all
  with assms(1) show ?thesis by (simp add: runOnFunction_def)
qed

theorem pass_aborts_on_multiple_uses_witness:
  "length (getUsers multiUseExample (OpResult 0 0)) = 2 \<and>
   runOnFunction stdShapeOp (\<lambda>g x. x) (\<lambda>patterns rw. rw) False (rewriterAt 0 multiUseExample)
     = \<lparr> final = (rewriterAt 0 multiUseExample)
                   \<lparr>diags := diags (rewriterAt 0 multiUseExample)
                      @ [FuncOpError ''execute domain splitting before combine op conversion'']\<rparr>,
         passFailed = True \<rparr>"
proof -
  have uses: "length (getUsers multiUseExample (OpResult 0 0)) = 2"
    by code_simp
  have c: "ops (graph (rewriterAt 0 multiUseExample)) 8
             = Some \<lparr> kind = CombineOp 2 30 1 1 0 0 (Some [0, 0, 0]) (Some [64, 64, 60]),
                      operands = [OpResult 0 0, OpResult 4 0],
                      resultTypes = [temp64], regions = [] \<rparr>"
    by (simp add: rewriterAt_def multiUseExample_def ifElseExample_def)
  have tagged: "isStencilProgram (graph (rewriterAt 0 multiUseExample))"
    and below: "8 < nextId (graph (rewriterAt 0 multiUseExample))"
    by (simp_all add: rewriterAt_def multiUseExample_def ifElseExample_def)
  have g: "graph (rewriterAt 0 multiUseExample) = multiUseExample"
    by (simp add: rewriterAt_def)
  from uses have many: "1 < length (getUsers (graph (rewriterAt 0 multiUseExample)) (OpResult 0 0))"
    by (simp add: g)
  have "runOnFunction stdShapeOp (\<lambda>g x. x) (\<lambda>patterns rw. rw) False (rewriterAt 0 multiUseExample)
     = \<lparr> final = (rewriterAt 0 multiUseExample)
                   \<lparr>diags := diags (rewriterAt 0 multiUseExample)
                      @ [FuncOpError ''execute domain splitting before combine op conversion'']\<rparr>,
         passFailed = True \<rparr>"
    by (rule pass_aborts_on_multiple_uses [OF tagged c _ below _ many]) simp_all
  with uses show ?thesis by (intro conjI)
qed


section \<open>The if/else rewrite at concrete graphs\<close>

text \<open>
  C3 fails for the if/else rewrite: on the example scenario with the lower return op
  unrolled and the upper one not, the rewrite emits the warning and returns failure, but
  it has already created the new apply op (operation 10), linked before the combine op,
  and the index, constant and comparison ops (11, 12, 13) in its body; none of them was
  in the graph before. (The fuse rewrite makes its check before it creates anything, see
  \<open>fuseApplyOps_failure_graph\<close>.)
\<close>

theorem ifelse_unroll_mismatch_leaves_ops:
  "(case IfElseRewrite 8 (rewriterAt 8 unrollMismatchExample) of
      Inl e \<Rightarrow> False
    | Inr (res, rw') \<Rightarrow>
        res = failure \<and>
        diags rw' = [Warning 8 ''expected matching unroll configurations''] \<and>
        map (getKind (graph rw')) [10, 11, 12, 13]
          = [Some (ApplyOp (Some [0, 0, 0]) (Some [64, 64, 60])), Some (IndexOp 2 [0, 0, 0]),
             Some (ConstantOp 30), Some (CmpIOp ult)] \<and>
        getBlockOps (graph rw') FuncBody = [0, 4, 10, 8, 9] \<and>
        getBlockOps (graph rw') (RegionOf 10 0) = [11, 12, 13]) \<and>
   map (getKind unrollMismatchExample) [10, 11, 12, 13] = [None, None, None, None] \<and>
   getBlockOps unrollMismatchExample FuncBody = [0, 4, 8, 9]"
  by code_simp

theorem ifelse_unroll_mismatch_leaves_ops_witness:
  "\<exists>rw'. IfElseRewrite 8 (rewriterAt 8 unrollMismatchExample) = Inr (failure, rw') \<and>
         getBlockOps (graph rw') FuncBody \<noteq> getBlockOps unrollMismatchExample FuncBody"
proof (cases "IfElseRewrite 8 (rewriterAt 8 unrollMismatchExample)")
  case (Inl e)
  with ifelse_unroll_mismatch_leaves_ops show ?thesis by simp
next
  case (Inr r)
  with ifelse_unroll_mismatch_leaves_ops show ?thesis by (cases r) simp
qed

text \<open>
  C2 fails on the example scenario: the operands of the new apply op (operation 10) are
  those of \<open>A\<close> followed by those of \<open>B\<close>, and the body of \<open>B\<close> (operations 5, 6) is in the
  else branch, but the argument of the body of \<open>B\<close>, which stood for the operand of \<open>B\<close>,
  is replaced by argument 0 of the new apply op, which stands for the operand of \<open>A\<close>,
  where the argument for the operand of \<open>B\<close> is argument 1.
\<close>

theorem ifelse_else_branch_arguments:
  "(case IfElseRewrite 8 (rewriterAt 8 ifElseExample) of
      Inl e \<Rightarrow> False
    | Inr (res, rw') \<Rightarrow>
        res = success \<and>
        getOperands (graph rw') 10 = [BlockArg FuncBody 0, BlockArg FuncBody 1] \<and>
        getBlockOps (graph rw') (RegionOf 14 0) = [1, 2, 16] \<and>
        getBlockOps (graph rw') (RegionOf 14 1) = [5, 6, 17] \<and>
        getOperands (graph rw') 1 = [BlockArg (RegionOf 10 0) 0] \<and>
        getOperands (graph rw') 5 = [BlockArg (RegionOf 10 0) 0]) \<and>
   getOperands ifElseExample 0 = [BlockArg FuncBody 0] \<and>
   getOperands ifElseExample 4 = [BlockArg FuncBody 1] \<and>
   getOperands ifElseExample 1 = [BlockArg (RegionOf 0 0) 0] \<and>
   getOperands ifElseExample 5 = [BlockArg (RegionOf 4 0) 0]"
  by code_simp

theorem ifelse_else_branch_arguments_witness:
  "\<exists>rw'. IfElseRewrite 8 (rewriterAt 8 ifElseExample) = Inr (success, rw') \<and>
         getOperands (graph rw') 5 = getOperands (graph rw') 1"
proof (cases "IfElseRewrite 8 (rewriterAt 8 ifElseExample)")
  case (Inl e)
  with ifelse_else_branch_arguments show ?thesis by simp
next
  case (Inr r)
  with ifelse_else_branch_arguments show ?thesis by (cases r) simp
qed


section \<open>Sequential substitution and the builders\<close>



lemma getArguments_length [simp]: "length (getArguments g b) = length (getArgTypes g b)"
  by (simp add: getArguments_def)

lemma getResults_length [simp]: "length (getResults g x) = length (getResultTypes g x)"
  by (simp add: getResults_def)




lemma buildApplyOp_fields [simp]:
  "operands (buildApplyOp g rts opnds lb ub) = opnds"
  "resultTypes (buildApplyOp g rts opnds lb ub) = rts"
  "regions (buildApplyOp g rts opnds lb ub) = [[\<lparr> bargs = map (typeOf g) opnds, bops = [] \<rparr>]]"
  by (simp_all add: buildApplyOp_def)

lemma buildReturnOp_fields [simp]:
  "kind (buildReturnOp opnds unroll) = ReturnOp unroll"
  "operands (buildReturnOp opnds unroll) = opnds"
  "resultTypes (buildReturnOp opnds unroll) = []"
  "regions (buildReturnOp opnds unroll) = []"
  by (simp_all add: buildReturnOp_def)



lemma isApplyOp_buildApplyOp [simp]: "isApplyOp (kind (buildApplyOp g rts opnds lb ub))"
  by (simp add: buildApplyOp_def)











lemma substSeq_Nil_news [simp]: "substSeq olds [] v = v"
  by (cases olds) simp_all

lemma map_substSeq_Nil_news [simp]: "map (substSeq olds []) vs = vs"
  by (induction vs) simp_all

lemma buildIndexOp_fields [simp]:
  "kind (buildIndexOp d off) = IndexOp d off"
  "operands (buildIndexOp d off) = []"
  "resultTypes (buildIndexOp d off) = [IndexType]"
  "regions (buildIndexOp d off) = []"
  by (simp_all add: buildIndexOp_def)

lemma buildConstantOp_fields [simp]:
  "kind (buildConstantOp v) = ConstantOp v"
  "operands (buildConstantOp v) = []"
  "resultTypes (buildConstantOp v) = [IndexType]"
  "regions (buildConstantOp v) = []"
  by (simp_all add: buildConstantOp_def)

lemma buildCmpIOp_fields [simp]:
  "kind (buildCmpIOp p a b) = CmpIOp p"
  "operands (buildCmpIOp p a b) = [a, b]"
  "resultTypes (buildCmpIOp p a b) = [I1Type]"
  "regions (buildCmpIOp p a b) = []"
  by (simp_all add: buildCmpIOp_def)

lemma buildIfOp_fields [simp]:
  "kind (buildIfOp ts cond) = IfOp"
  "operands (buildIfOp ts cond) = [cond]"
  "resultTypes (buildIfOp ts cond) = ts"
  "regions (buildIfOp ts cond) = [[\<lparr> bargs = [], bops = [] \<rparr>], [\<lparr> bargs = [], bops = [] \<rparr>]]"
  by (simp_all add: buildIfOp_def)

lemma buildYieldOp_fields [simp]:
  "kind (buildYieldOp vs) = YieldOp"
  "operands (buildYieldOp vs) = vs"
  "resultTypes (buildYieldOp vs) = []"
  "regions (buildYieldOp vs) = []"
  by (simp_all add: buildYieldOp_def)



lemma blockAt_None_getKind: "getKind g p = None \<Longrightarrow> blockAt g (RegionOf p r) = None"
  by (simp add: blockAt_def getKind_def)




lemma blockAt_eraseFromGraph_None:
  "blockAt (eraseFromGraph x g) (RegionOf p r) = None \<longleftrightarrow> p = x \<or> blockAt g (RegionOf p r) = None"
  by (simp add: blockAt_eraseFromGraph)









lemma permuteReturnOpOperands_Inr:
  "permuteReturnOpOperands a k vs fac opnds = Inr ys \<Longrightarrow>
     ys = concat (map (\<lambda>v. take fac (drop (resultToIndex a k v * fac) opnds)) vs) \<and>
     (\<forall>v\<in>set vs. getDefiningOp v = Some a \<and> resultToIndex a k v * fac + fac \<le> length opnds)"
proof (induction vs arbitrary: ys)
  case Nil
  then show ?case by simp
next
  case (Cons v vs)
  from Cons.prems obtain rest where
    r: "permuteReturnOpOperands a k vs fac opnds = Inr rest"
    and d: "getDefiningOp v = Some a" "resultToIndex a k v * fac + fac \<le> length opnds"
    and ys: "ys = take fac (drop (resultToIndex a k v * fac) opnds) @ rest"
    by (auto split: if_splits sum.splits)
  from Cons.IH [OF r] d ys show ?case by simp
qed


section \<open>The fuse rewrite\<close>













section \<open>The if/else rewrite on a general graph\<close>











lemma ifElseRedirect_other:
  "getDefiningOp v \<noteq> None \<Longrightarrow> getDefiningOp v \<noteq> Some c \<Longrightarrow> ifElseRedirect l ml u mu c k n v = v"
  by (cases v) (auto simp: ifElseRedirect_def)











end
